theory Spec2Isabelle
  imports Main "HOL-Library.AList"
begin

section \<open>Strings and numbers of the runtime\<close>

text \<open>
  A JavaScript string is modelled as a \<open>string\<close> whose characters are the code units
  below 256. \<open>isWhiteSpace\<close> is the white space that \<open>trim\<close> and \<open>parseInt\<close> skip in
  that range: TAB, LF, VT, FF, CR, SP and NBSP.
\<close>

definition isWhiteSpace :: "char \<Rightarrow> bool" where
  "isWhiteSpace c \<longleftrightarrow> (of_char c :: nat) \<in> {9, 10, 11, 12, 13, 32, 160}"

definition trim :: "string \<Rightarrow> string" where
  "trim s = rev (dropWhile isWhiteSpace (rev (dropWhile isWhiteSpace s)))"

text \<open>The value of a character as a digit of radix \<open>R\<close>, if it is one.\<close>

definition radixDigit :: "nat \<Rightarrow> char \<Rightarrow> nat option" where
  "radixDigit R c =
     (let n = (of_char c :: nat);
          d = (if 48 \<le> n \<and> n \<le> 57 then Some (n - 48)
               else if 97 \<le> n \<and> n \<le> 122 then Some (n - 87)
               else if 65 \<le> n \<and> n \<le> 90 then Some (n - 55)
               else None)
      in case d of None \<Rightarrow> None | Some v \<Rightarrow> if v < R then Some v else None)"

definition digitsValue :: "nat \<Rightarrow> string \<Rightarrow> nat" where
  "digitsValue R Z =
     foldl (\<lambda>a c. a * R + (case radixDigit R c of Some v \<Rightarrow> v | None \<Rightarrow> 0)) 0 Z"

text \<open>
  \<open>parseInt(string)\<close> without a radix: skip leading white space, read a sign, read the
  prefix \<open>0x\<close>/\<open>0X\<close> as radix 16, take the longest run of digits. \<open>None\<close> is NaN.
  The result is the exact integer; the runtime's number is its nearest double, which
  differs only beyond \<open>2 ^ 53\<close>, far from every id of the classification table.
\<close>

definition parseInt :: "string \<Rightarrow> int option" where
  "parseInt inputString =
     (let S = dropWhile isWhiteSpace inputString;
          sign = (if S \<noteq> [] \<and> hd S = CHR ''-'' then - 1 else (1::int));
          S1 = (if S \<noteq> [] \<and> (hd S = CHR ''+'' \<or> hd S = CHR ''-'') then tl S else S);
          hex = (take 2 S1 = ''0x'' \<or> take 2 S1 = ''0X'');
          R = (if hex then 16 else 10);
          S2 = (if hex then drop 2 S1 else S1);
          Z = takeWhile (\<lambda>c. radixDigit R c \<noteq> None) S2
      in if Z = [] then None else Some (sign * int (digitsValue R Z)))"

text \<open>A number in a template literal: its decimal digits; \<open>undefined\<close> by its name.\<close>

fun showNat :: "nat \<Rightarrow> string" where
  "showNat n =
     (if n < 10 then [''0123456789'' ! n]
      else showNat (n div 10) @ [''0123456789'' ! (n mod 10)])"

declare showNat.simps [simp del]

definition showInt :: "int \<Rightarrow> string" where
  "showInt i = (if i < 0 then CHR ''-'' # showNat (nat (- i)) else showNat (nat i))"

definition interpolate :: "int option \<Rightarrow> string" where
  "interpolate x = (case x of None \<Rightarrow> ''undefined'' | Some n \<Rightarrow> showInt n)"

text \<open>
  \<open>new Date(ms).toDateString()\<close> of a runtime whose time zone is UTC: the day of the
  week, the month, the day in two digits and the year in at least four, and
  \<open>Invalid Date\<close> outside the range of time values.
\<close>

definition dayNames :: "string list" where
  "dayNames = [''Sun'', ''Mon'', ''Tue'', ''Wed'', ''Thu'', ''Fri'', ''Sat'']"

definition monthNames :: "string list" where
  "monthNames = [''Jan'', ''Feb'', ''Mar'', ''Apr'', ''May'', ''Jun'',
                 ''Jul'', ''Aug'', ''Sep'', ''Oct'', ''Nov'', ''Dec'']"

definition zeroPadded :: "nat \<Rightarrow> nat \<Rightarrow> string" where
  "zeroPadded w n = replicate (w - length (showNat n)) CHR ''0'' @ showNat n"

text \<open>Year, month and day of a day counted from 1 January 1970.\<close>

definition civilFromDays :: "int \<Rightarrow> int \<times> int \<times> int" where
  "civilFromDays days =
     (let z = days + 719468;
          era = z div 146097;
          doe = z - era * 146097;
          yoe = (doe - doe div 1460 + doe div 36524 - doe div 146096) div 365;
          doy = doe - (365 * yoe + yoe div 4 - yoe div 100);
          mp = (5 * doy + 2) div 153;
          d = doy - (153 * mp + 2) div 5 + 1;
          m = (if mp < 10 then mp + 3 else mp - 9);
          y = yoe + era * 400 + (if m \<le> 2 then 1 else 0)
      in (y, m, d))"

definition utcDateString :: "int \<Rightarrow> string" where
  "utcDateString ms =
     (if ms < - 8640000000000000 \<or> 8640000000000000 < ms then ''Invalid Date''
      else
        (let days = ms div 86400000
         in case civilFromDays days of
              (y, m, d) \<Rightarrow>
                dayNames ! nat ((days + 4) mod 7) @ '' '' @ monthNames ! nat (m - 1) @ '' ''
                @ zeroPadded 2 (nat d) @ '' ''
                @ (if y < 0 then ''-'' else []) @ zeroPadded 4 (nat \<bar>y\<bar>)))"

section \<open>The classifier (platformAPI.js)\<close>

type_synonym idTable = "(string \<times> int list) list"

text \<open>
  \<open>getCSESCategories\<close>: the static table, an object literal whose entries
  \<open>Object.entries\<close> enumerates in the order written.
\<close>

definition getCSESCategories :: idTable where
  "getCSESCategories =
    [(''intro'', [1068, 1083, 1069, 1094, 1070, 1071, 1072, 1617, 2165, 1618, 1754, 1755,
                  1624, 1092, 1622, 1623, 1073, 1619, 2431]),
     (''sort'', [1621, 1084, 1090, 1091, 1619, 1629, 1640, 1643, 1074, 1621, 1629, 1640,
                 1643, 2162, 2183, 2168, 1642, 1645, 1074, 1141, 1076, 1630, 1631, 1641,
                 1662, 1085, 1097, 1645, 1620, 2216, 2217, 2428, 1632, 1628, 1642]),
     (''dp'', [1633, 1634, 1635, 1636, 1637, 1638, 1158, 1746, 2413, 1639, 2181, 2220,
               1653, 2442, 1097, 2181, 2220, 1644, 1097]),
     (''graph'', [1666, 1667, 1668, 1669, 1670, 1671, 1672, 1673, 1674, 1675, 1676, 1677,
                  1678, 1679, 1680, 1681, 1682, 1683, 1684, 1685, 1686, 1687, 1688, 1689,
                  1690, 1691, 1692, 1693, 1694, 1695, 1696, 1697, 1698, 1699, 1700, 1701]),
     (''range'', [1646, 1647, 1648, 1649, 1650, 1651, 1652, 1143, 1749, 2166, 2206, 2401,
                  2416, 1734, 1749, 1190, 2416, 2206, 2401]),
     (''tree'', [1674, 1130, 1131, 1132, 1133, 1134, 1135, 1136, 1137, 1138, 1139, 1702,
                 2079, 1703, 2134, 1704])]"

text \<open>\<open>ids.includes(id)\<close> for an id that may be NaN: no bucket holds NaN.\<close>

definition idsInclude :: "int list \<Rightarrow> int option \<Rightarrow> bool" where
  "idsInclude ids i = (case i of None \<Rightarrow> False | Some n \<Rightarrow> n \<in> set ids)"

text \<open>The \<open>for ... of Object.entries(categories)\<close> loop, returning at the first hit.\<close>

fun firstBucket :: "int option \<Rightarrow> idTable \<Rightarrow> string option" where
  "firstBucket i [] = None"
| "firstBucket i ((category, ids) # rest) =
     (if idsInclude ids i then Some category else firstBucket i rest)"

definition categorizeCSESProblem :: "string \<Rightarrow> idTable \<Rightarrow> string option" where
  "categorizeCSESProblem problemId categories = firstBucket (parseInt problemId) categories"

section \<open>CSES progress (platformAPI.js)\<close>

text \<open>
  One entry of \<open>solvedProblems\<close>: \<open>{name, id, solved: true}\<close>. The fields \<open>id\<close> and
  \<open>solved\<close> are named \<open>id_p\<close> and \<open>solved_p\<close> here.
\<close>

record solvedProblem =
  name :: string
  id_p :: string
  solved_p :: bool

text \<open>
  A category counter. The sync's categories add \<open>problems\<close> to it; the dashboard's
  records (script.js) are counters alone or counters with a display name and a
  difficulty. Counters are non-negative integers.
\<close>

record counter =
  solved :: nat
  total :: nat

record category = counter +
  problems :: "solvedProblem list"

type_synonym categories = "(string \<times> category) list"

definition initialCategories :: categories where
  "initialCategories =
    [(''intro'', \<lparr>solved = 0, total = 19, problems = []\<rparr>),
     (''sort'', \<lparr>solved = 0, total = 35, problems = []\<rparr>),
     (''dp'', \<lparr>solved = 0, total = 19, problems = []\<rparr>),
     (''graph'', \<lparr>solved = 0, total = 36, problems = []\<rparr>),
     (''range'', \<lparr>solved = 0, total = 19, problems = []\<rparr>),
     (''tree'', \<lparr>solved = 0, total = 16, problems = []\<rparr>)]"

text \<open>
  The user page as the scraper sees it: one \<open>scoreCell\<close> for each element matching
  \<open>.task-score.full\<close>, with the text of \<open>.task-name a\<close> in its closest row (empty when
  there is none) and that link's \<open>href\<close> (\<open>None\<close> when undefined).
\<close>

record scoreCell =
  taskText :: string
  taskHref :: "string option"

text \<open>\<open>taskId.split('/').pop()\<close>: what follows the last slash.\<close>

definition lastSegment :: "string \<Rightarrow> string" where
  "lastSegment s = rev (takeWhile (\<lambda>c. c \<noteq> CHR ''/'') (rev s))"

fun parseSolvedProblems :: "scoreCell list \<Rightarrow> solvedProblem list" where
  "parseSolvedProblems [] = []"
| "parseSolvedProblems (element # rest) =
     (let taskName = trim (taskText element)
      in (case taskHref element of
            None \<Rightarrow> []
          | Some taskId \<Rightarrow>
              if taskName \<noteq> [] \<and> taskId \<noteq> []
              then [\<lparr>name = taskName, id_p = lastSegment taskId, solved_p = True\<rparr>]
              else [])
         @ parseSolvedProblems rest)"

text \<open>The body of \<open>solvedProblems.forEach\<close>.\<close>

definition countProblem :: "categories \<Rightarrow> solvedProblem \<Rightarrow> categories" where
  "countProblem cats problem =
     (case categorizeCSESProblem (id_p problem) getCSESCategories of
        None \<Rightarrow> cats
      | Some c \<Rightarrow>
          (if c = [] then cats
           else case map_of cats c of
                  None \<Rightarrow> cats
                | Some cat \<Rightarrow>
                    AList.update c
                      (cat\<lparr>solved := solved cat + 1, problems := problems cat @ [problem]\<rparr>)
                      cats))"

definition categorizeAll :: "solvedProblem list \<Rightarrow> categories" where
  "categorizeAll solvedProblems = foldl countProblem initialCategories solvedProblems"

text \<open>
  The result objects. A field that an object does not have is \<open>None\<close>. \<open>axios.get\<close> is
  a function from the URL to the error message of a failed request or to the page;
  \<open>now\<close> is what \<open>new Date().toISOString()\<close> reads.
\<close>

record csesResult =
  success :: bool
  error :: "string option"
  totalSolved :: nat
  categories :: "categories option"
  lastUpdated :: "string option"

definition csesBaseUrl :: string where
  "csesBaseUrl = ''https://cses.fi''"

text \<open>The \<open>try\<close> block: \<open>Inl\<close> is the message of the error thrown in it.\<close>

definition fetchCSESProgress_try ::
  "(string \<Rightarrow> string + scoreCell list) \<Rightarrow> string \<Rightarrow> string \<Rightarrow> string + csesResult" where
  "fetchCSESProgress_try axios_get now username =
     (let userUrl = csesBaseUrl @ ''/user/'' @ username
      in case axios_get userUrl of
           Inl message \<Rightarrow> Inl message
         | Inr cells \<Rightarrow>
             (let solvedProblems = parseSolvedProblems cells
              in Inr \<lparr>csesResult.success = True, csesResult.error = None,
                      csesResult.totalSolved = length solvedProblems,
                      csesResult.categories = Some (categorizeAll solvedProblems),
                      csesResult.lastUpdated = Some now\<rparr>))"

definition fetchCSESProgress ::
  "(string \<Rightarrow> string + scoreCell list) \<Rightarrow> string \<Rightarrow> string \<Rightarrow> csesResult" where
  "fetchCSESProgress axios_get now username =
     (case fetchCSESProgress_try axios_get now username of
        Inr result \<Rightarrow> result
      | Inl message \<Rightarrow>
          \<lparr>csesResult.success = False, csesResult.error = Some message,
           csesResult.totalSolved = 0, csesResult.categories = None,
           csesResult.lastUpdated = None\<rparr>)"

section \<open>Adding a problem by hand (script.js)\<close>




section \<open>Codeforces progress (platformAPI.js)\<close>

text \<open>The body of an API answer, \<open>{status, result}\<close>.\<close>

record 'a apiResponse =
  status :: string
  result :: 'a

record userInfo =
  rating :: "int option"
  maxRating :: "int option"

record problem =
  contestId :: "int option"
  index :: string
  name :: string
  rating :: "int option"

record author =
  participantType :: string

record submission =
  contestId :: "int option"
  creationTimeSeconds :: int
  problem :: problem
  author :: author
  verdict :: "string option"

text \<open>A rating is a number or one of the labels \<open>'Unrated'\<close> and \<open>'Error'\<close>.\<close>

datatype ratingValue = Rated int | Label string

text \<open>\<open>x || 'Unrated'\<close>: an absent rating and the rating 0 are both falsy.\<close>

definition orElse :: "int option \<Rightarrow> ratingValue \<Rightarrow> ratingValue" where
  "orElse x d = (case x of None \<Rightarrow> d | Some n \<Rightarrow> if n = 0 then d else Rated n)"

definition problemKeyOf :: "submission \<Rightarrow> string" where
  "problemKeyOf s =
     interpolate (problem.contestId (problem s)) @ problem.index (problem s)"

record dailySolve =
  key :: string
  name :: string
  rating :: ratingValue

type_synonym dailySolves = "(string \<times> dailySolve list) list"

text \<open>A \<open>Set\<close>: its elements in insertion order, each once; \<open>size\<close> is the length.\<close>

definition setAdd :: "'a \<Rightarrow> 'a list \<Rightarrow> 'a list" where
  "setAdd x xs = (if x \<in> set xs then xs else xs @ [x])"

text \<open>
  The body of the first \<open>submissions.forEach\<close>. \<open>toDateString\<close> is the runtime's
  \<open>new Date(ms).toDateString()\<close>, the calendar date of the instant in the local time
  zone; its values are date strings, never the name of an inherited property.
\<close>

definition recordSolve ::
  "(int \<Rightarrow> string) \<Rightarrow> string list \<times> dailySolves \<Rightarrow> submission \<Rightarrow> string list \<times> dailySolves" where
  "recordSolve toDateString acc s =
     (case acc of (solvedProblems, dailySolves) \<Rightarrow>
        if verdict s = Some ''OK'' then
          (let problemKey = problemKeyOf s;
               solveDate = toDateString (creationTimeSeconds s * 1000);
               day = (case map_of dailySolves solveDate of None \<Rightarrow> [] | Some l \<Rightarrow> l);
               day' = (if \<exists>p\<in>set day. key p = problemKey then day
                       else day @ [\<lparr>key = problemKey,
                                    name = problem.name (problem s),
                                    rating = orElse (problem.rating (problem s)) (Label ''Unrated'')\<rparr>])
           in (setAdd problemKey solvedProblems, AList.update solveDate day' dailySolves))
        else (solvedProblems, dailySolves))"

text \<open>The body of the second \<open>submissions.forEach\<close>.\<close>

definition recordContest :: "int option list \<Rightarrow> submission \<Rightarrow> int option list" where
  "recordContest contests s =
     (if participantType (author s) = ''CONTESTANT''
      then setAdd (submission.contestId s) contests else contests)"

record cfResult =
  success :: bool
  error :: "string option"
  username :: "string option"
  rating :: ratingValue
  maxRating :: "ratingValue option"
  problemsSolved :: nat
  contests :: nat
  dailySolves :: "dailySolves option"
  lastUpdated :: "string option"

definition codeforcesBaseUrl :: string where
  "codeforcesBaseUrl = ''https://codeforces.com/api''"

text \<open>
  The \<open>try\<close> block. \<open>getInfo\<close> and \<open>getStatus\<close> are \<open>axios.get\<close> on the two
  endpoints. Reading \<open>rating\<close> of \<open>result[0]\<close> throws a TypeError when \<open>result\<close> is
  empty.
\<close>

definition fetchCodeforcesProgress_try ::
  "(string \<Rightarrow> string + userInfo list apiResponse) \<Rightarrow>
   (string \<Rightarrow> string + submission list apiResponse) \<Rightarrow>
   (int \<Rightarrow> string) \<Rightarrow> string \<Rightarrow> string \<Rightarrow> string + cfResult" where
  "fetchCodeforcesProgress_try getInfo getStatus toDateString now user =
     (case getInfo (codeforcesBaseUrl @ ''/user.info?handles='' @ user) of
        Inl message \<Rightarrow> Inl message
      | Inr userResponse \<Rightarrow>
          if status userResponse \<noteq> ''OK'' then Inl ''User not found on Codeforces''
          else
            (case result userResponse of
               [] \<Rightarrow> Inl ''Cannot read properties of undefined (reading 'rating')''
             | info # _ \<Rightarrow>
                 (let rating = orElse (userInfo.rating info) (Label ''Unrated'');
                      maxRating = orElse (userInfo.maxRating info) rating
                  in case getStatus (codeforcesBaseUrl @ ''/user.status?handle='' @ user
                                      @ ''&from=1&count=10000'') of
                       Inl message \<Rightarrow> Inl message
                     | Inr submissionsResponse \<Rightarrow>
                         if status submissionsResponse \<noteq> ''OK''
                         then Inl ''Failed to fetch submissions''
                         else
                           (let submissions = result submissionsResponse;
                                solves = foldl (recordSolve toDateString) ([], []) submissions;
                                contests = foldl recordContest [] submissions
                            in Inr \<lparr>cfResult.success = True, cfResult.error = None,
                                    cfResult.username = Some user,
                                    cfResult.rating = rating,
                                    cfResult.maxRating = Some maxRating,
                                    cfResult.problemsSolved = length (fst solves),
                                    cfResult.contests = length contests,
                                    cfResult.dailySolves = Some (snd solves),
                                    cfResult.lastUpdated = Some now\<rparr>))))"

definition fetchCodeforcesProgress ::
  "(string \<Rightarrow> string + userInfo list apiResponse) \<Rightarrow>
   (string \<Rightarrow> string + submission list apiResponse) \<Rightarrow>
   (int \<Rightarrow> string) \<Rightarrow> string \<Rightarrow> string \<Rightarrow> cfResult" where
  "fetchCodeforcesProgress getInfo getStatus toDateString now user =
     (case fetchCodeforcesProgress_try getInfo getStatus toDateString now user of
        Inr r \<Rightarrow> r
      | Inl message \<Rightarrow>
          \<lparr>cfResult.success = False, cfResult.error = Some message,
           cfResult.username = None,
           cfResult.rating = Label ''Error'',
           cfResult.maxRating = None,
           cfResult.problemsSolved = 0,
           cfResult.contests = 0,
           cfResult.dailySolves = None,
           cfResult.lastUpdated = None\<rparr>)"

section \<open>VJudge progress (platformAPI.js)\<close>

text \<open>
  A VJudge page as the scraper sees it: the texts of \<open>#solved\<close> and \<open>#submitted\<close>,
  the \<open>.activity-cell\<close> elements (text and \<open>data-date\<close>) and the \<open>tr.submission-row\<close>
  rows (texts of \<open>.status\<close>, \<open>.problem-title\<close> and \<open>.timestamp\<close>).
\<close>

record activityCell =
  cellText :: string
  dataDate :: "string option"

record submissionRow =
  statusText :: string
  problemTitle :: string
  timestampText :: string

record vjudgePage =
  solvedText :: string
  submittedText :: string
  activityCells :: "activityCell list"
  submissionRows :: "submissionRow list"

text \<open>\<open>parseInt(s) || 0\<close>.\<close>

definition parseIntOrZero :: "string \<Rightarrow> int" where
  "parseIntOrZero s = (case parseInt s of None \<Rightarrow> 0 | Some n \<Rightarrow> n)"

text \<open>The body of \<open>$('.activity-cell').each\<close>; the keys are date strings.\<close>

definition recordActivity :: "(string \<times> int) list \<Rightarrow> activityCell \<Rightarrow> (string \<times> int) list" where
  "recordActivity dailyActivity element =
     (let n = parseIntOrZero (trim (cellText element))
      in if n > 0 then
           (case dataDate element of
              None \<Rightarrow> dailyActivity
            | Some date \<Rightarrow> if date \<noteq> [] then AList.update date n dailyActivity
                           else dailyActivity)
         else dailyActivity)"

record recentSolve =
  problem :: string
  timestamp :: string

type_synonym recentSolves = "(string \<times> recentSolve list) list"

text \<open>
  The body of \<open>$subs('tr.submission-row').each\<close>. \<open>dateOf\<close> is the runtime's
  \<open>new Date(timeStr).toDateString()\<close>.
\<close>

definition recordRecent :: "(string \<Rightarrow> string) \<Rightarrow> recentSolves \<Rightarrow> submissionRow \<Rightarrow> recentSolves" where
  "recordRecent dateOf recent row =
     (if trim (statusText row) = ''Accepted'' then
        (let p = trim (problemTitle row);
             timeStr = trim (timestampText row);
             date = dateOf timeStr;
             day = (case map_of recent date of None \<Rightarrow> [] | Some l \<Rightarrow> l)
         in AList.update date (day @ [\<lparr>problem = p, timestamp = timeStr\<rparr>]) recent)
      else recent)"

record vjudgeResult =
  success :: bool
  error :: "string option"
  username :: "string option"
  totalSolved :: int
  totalSubmitted :: "int option"
  dailyActivity :: "(string \<times> int) list option"
  recentSolves :: "recentSolves option"
  lastUpdated :: "string option"

definition vjudgeBaseUrl :: string where
  "vjudgeBaseUrl = ''https://vjudge.net/user''"

definition fetchVJudgeProgress_try ::
  "(string \<Rightarrow> string + vjudgePage) \<Rightarrow> (string \<Rightarrow> string) \<Rightarrow> string \<Rightarrow> string
     \<Rightarrow> string + vjudgeResult" where
  "fetchVJudgeProgress_try axios_get dateOf now user =
     (case axios_get (vjudgeBaseUrl @ ''/'' @ user) of
        Inl message \<Rightarrow> Inl message
      | Inr page \<Rightarrow>
          (let solvedCount = parseIntOrZero (trim (solvedText page));
               submittedCount = parseIntOrZero (trim (submittedText page));
               activity = foldl recordActivity [] (activityCells page)
           in case axios_get (vjudgeBaseUrl @ ''/'' @ user @ ''/submissions'') of
                Inl message \<Rightarrow> Inl message
              | Inr subs \<Rightarrow>
                  Inr \<lparr>vjudgeResult.success = True, vjudgeResult.error = None,
                       vjudgeResult.username = Some user,
                       vjudgeResult.totalSolved = solvedCount,
                       vjudgeResult.totalSubmitted = Some submittedCount,
                       vjudgeResult.dailyActivity = Some activity,
                       vjudgeResult.recentSolves =
                         Some (foldl (recordRecent dateOf) [] (submissionRows subs)),
                       vjudgeResult.lastUpdated = Some now\<rparr>))"

definition fetchVJudgeProgress ::
  "(string \<Rightarrow> string + vjudgePage) \<Rightarrow> (string \<Rightarrow> string) \<Rightarrow> string \<Rightarrow> string
     \<Rightarrow> vjudgeResult" where
  "fetchVJudgeProgress axios_get dateOf now user =
     (case fetchVJudgeProgress_try axios_get dateOf now user of
        Inr r \<Rightarrow> r
      | Inl message \<Rightarrow>
          \<lparr>vjudgeResult.success = False, vjudgeResult.error = Some message,
           vjudgeResult.username = None,
           vjudgeResult.totalSolved = 0,
           vjudgeResult.totalSubmitted = None,
           vjudgeResult.dailyActivity = None,
           vjudgeResult.recentSolves = None,
           vjudgeResult.lastUpdated = None\<rparr>)"

section \<open>The combined sync (platformAPI.js)\<close>

text \<open>
  The network and the runtime that one call of \<open>syncAllPlatforms\<close> meets, and the
  instants its four readings of the clock return.
\<close>

record world =
  csesGet :: "string \<Rightarrow> string + scoreCell list"
  cfInfoGet :: "string \<Rightarrow> string + userInfo list apiResponse"
  cfStatusGet :: "string \<Rightarrow> string + submission list apiResponse"
  vjudgeGet :: "string \<Rightarrow> string + vjudgePage"
  toDateString :: "int \<Rightarrow> string"
  dateOf :: "string \<Rightarrow> string"
  syncNow :: string
  csesNow :: string
  cfNow :: string
  vjudgeNow :: string

text \<open>The argument \<open>usernames\<close>; a field that is absent is \<open>None\<close>.\<close>

record usernames =
  cses :: "string option"
  codeforces :: "string option"
  vjudge :: "string option"

record syncResults =
  cses :: "csesResult option"
  codeforces :: "cfResult option"
  vjudge :: "vjudgeResult option"
  syncTime :: string

datatype platform = CSES | Codeforces | VJudge

text \<open>\<open>if (usernames.p)\<close>: an absent name and the empty name are falsy.\<close>

definition truthy :: "string option \<Rightarrow> bool" where
  "truthy u = (case u of None \<Rightarrow> False | Some s \<Rightarrow> s \<noteq> [])"

definition nameOf :: "string option \<Rightarrow> string" where
  "nameOf u = (case u of None \<Rightarrow> [] | Some s \<Rightarrow> s)"

text \<open>The promises pushed, in the order of the three \<open>if\<close>s.\<close>

definition promises :: "usernames \<Rightarrow> platform list" where
  "promises u =
     (if truthy (usernames.cses u) then [CSES] else [])
     @ (if truthy (usernames.codeforces u) then [Codeforces] else [])
     @ (if truthy (usernames.vjudge u) then [VJudge] else [])"

text \<open>
  A promise settles: the fetch has returned its result and the \<open>then\<close> callback stores
  it in its field of \<open>results\<close>.
\<close>

definition settle :: "world \<Rightarrow> usernames \<Rightarrow> syncResults \<Rightarrow> platform \<Rightarrow> syncResults" where
  "settle w u results p =
     (case p of
        CSES \<Rightarrow>
          results\<lparr>syncResults.cses :=
            Some (fetchCSESProgress (csesGet w) (csesNow w) (nameOf (usernames.cses u)))\<rparr>
      | Codeforces \<Rightarrow>
          results\<lparr>syncResults.codeforces :=
            Some (fetchCodeforcesProgress (cfInfoGet w) (cfStatusGet w) (toDateString w)
                    (cfNow w) (nameOf (usernames.codeforces u)))\<rparr>
      | VJudge \<Rightarrow>
          results\<lparr>syncResults.vjudge :=
            Some (fetchVJudgeProgress (vjudgeGet w) (dateOf w) (vjudgeNow w)
                    (nameOf (usernames.vjudge u)))\<rparr>)"

text \<open>
  \<open>await Promise.allSettled(promises)\<close> resumes when every promise has settled, in
  whatever order the network completes them: \<open>order\<close> lists the promises in that order.
\<close>

definition syncAllPlatforms_in :: "platform list \<Rightarrow> world \<Rightarrow> usernames \<Rightarrow> syncResults" where
  "syncAllPlatforms_in order w u =
     foldl (settle w u)
       \<lparr>syncResults.cses = None, syncResults.codeforces = None, syncResults.vjudge = None,
        syncResults.syncTime = syncNow w\<rparr>
       order"

definition syncAllPlatforms :: "world \<Rightarrow> usernames \<Rightarrow> syncResults" where
  "syncAllPlatforms w u = syncAllPlatforms_in (promises u) w u"

section \<open>The topic catalog (platformAPI.js)\<close>

text \<open>
  The problem-set page as the scraper sees it. For each \<open>h2\<close>: its text and, for each
  sibling that follows it up to the next \<open>h2\<close>, the links in it whose \<open>href\<close> contains
  \<open>/task/\<close>. For each element matched by \<open>*:contains("Problems")\<close>: its text and the
  number of such links in its parent.
\<close>

record taskLink =
  linkHref :: string
  linkText :: string

record heading =
  headingText :: string
  siblings :: "taskLink list list"

record candidate =
  elementText :: string
  parentTaskLinks :: nat

record topicsPage =
  headings :: "heading list"
  candidates :: "candidate list"

record problemLink =
  title :: string
  url :: string

text \<open>
  A description is a text or, for a title that names an inherited member of
  \<open>Object.prototype\<close>, that member.
\<close>

datatype description = Text string | Inherited string

record topic =
  title :: string
  slug :: string
  count :: nat
  problems :: "problemLink list option"
  url :: string
  description :: "description option"

definition toLowerChar :: "char \<Rightarrow> char" where
  "toLowerChar c =
     (let n = (of_char c :: nat)
      in if (65 \<le> n \<and> n \<le> 90) \<or> (192 \<le> n \<and> n \<le> 222 \<and> n \<noteq> 215)
         then char_of (n + 32) else c)"

definition toLowerCase :: "string \<Rightarrow> string" where
  "toLowerCase s = map toLowerChar s"

definition slugChar :: "char \<Rightarrow> bool" where
  "slugChar c = (let n = (of_char c :: nat) in (97 \<le> n \<and> n \<le> 122) \<or> (48 \<le> n \<and> n \<le> 57))"

text \<open>\<open>replace(/[^a-z0-9]+/g, '-')\<close>: each run of other characters becomes one dash.\<close>

function dashRuns :: "string \<Rightarrow> string" where
  "dashRuns [] = []"
| "dashRuns (c # cs) =
     (if slugChar c then c # dashRuns cs
      else CHR ''-'' # dashRuns (dropWhile (\<lambda>x. \<not> slugChar x) cs))"
  by pat_completeness auto
termination
  by (relation "measure length") (auto simp: length_dropWhile_le less_Suc_eq_le)

text \<open>\<open>replace(/(^-|-$)/g, '')\<close>: a dash at the start and a dash at the end go.\<close>

definition stripDashes :: "string \<Rightarrow> string" where
  "stripDashes s =
     (let s1 = (if s \<noteq> [] \<and> hd s = CHR ''-'' then tl s else s)
      in if s1 \<noteq> [] \<and> last s1 = CHR ''-'' then butlast s1 else s1)"

definition slugOf :: "string \<Rightarrow> string" where
  "slugOf t = stripDashes (dashRuns (toLowerCase t))"

definition topicsUrl :: string where
  "topicsUrl = csesBaseUrl @ ''/problemset/''"

text \<open>Method 1, the body of \<open>$('h2').each\<close>.\<close>

definition headingTopic :: "heading \<Rightarrow> topic list" where
  "headingTopic el =
     (let t = trim (headingText el)
      in if t = [] \<or> length t > 50 then []
         else
           (let links = concat (siblings el);
                n = length links;
                problemLinks =
                  map (\<lambda>l. \<lparr>problemLink.title = trim (linkText l),
                             problemLink.url = csesBaseUrl @ linkHref l\<rparr>)
                    (filter (\<lambda>l. linkHref l \<noteq> [] \<and> trim (linkText l) \<noteq> []) links)
            in if n > 0
               then [\<lparr>topic.title = t, topic.slug = slugOf t, topic.count = n,
                      topic.problems = Some (take 10 problemLinks),
                      topic.url = topicsUrl @ ''#'' @ slugOf t,
                      topic.description = None\<rparr>]
               else []))"

text \<open>Method 2, the body of \<open>$('*:contains("Problems")').each\<close>.\<close>

definition candidateTopic :: "candidate \<Rightarrow> topic list" where
  "candidateTopic el =
     (let tx = elementText el
      in if tx = [] \<or> length (filter (\<lambda>c. c = CHR '' '') tx) + 1 < 2 \<or> length tx > 60 then []
         else if parentTaskLinks el > 0
         then [\<lparr>topic.title = trim tx, topic.slug = slugOf (trim tx),
                topic.count = parentTaskLinks el,
                topic.problems = None,
                topic.url = topicsUrl @ ''#'' @ slugOf (trim tx),
                topic.description = None\<rparr>]
         else [])"

definition parseTopics :: "topicsPage \<Rightarrow> topic list" where
  "parseTopics page =
     (let topics = concat (map headingTopic (headings page))
      in if topics = [] then concat (map candidateTopic (candidates page)) else topics)"

text \<open>\<open>/[a-z]/i.test(title)\<close>.\<close>

definition hasLetter :: "string \<Rightarrow> bool" where
  "hasLetter s = (\<exists>c\<in>set s. let n = (of_char c :: nat)
                               in (97 \<le> n \<and> n \<le> 122) \<or> (65 \<le> n \<and> n \<le> 90))"

text \<open>The filter with its set \<open>seen\<close> of lower-cased titles.\<close>

fun filterTopics :: "string list \<Rightarrow> topic list \<Rightarrow> topic list" where
  "filterTopics seen [] = []"
| "filterTopics seen (t # ts) =
     (if toLowerCase (topic.title t) \<in> set seen \<or> topic.count t = 0
      then filterTopics seen ts
      else (if hasLetter (topic.title t) \<and> length (topic.title t) < 60 then [t] else [])
           @ filterTopics (setAdd (toLowerCase (topic.title t)) seen) ts)"

definition ownDescriptions :: "(string \<times> string) list" where
  "ownDescriptions =
    [(''Introductory Problems'', ''Basic programming problems to get started''),
     (''Sorting and Searching'', ''Fundamental algorithms for sorting and searching''),
     (''Dynamic Programming'', ''Optimization problems using DP techniques''),
     (''Graph Algorithms'', ''Tree and graph traversal algorithms''),
     (''Range Queries'', ''Efficient range query data structures''),
     (''Tree Algorithms'', ''Advanced tree manipulation algorithms''),
     (''Mathematics'', ''Number theory and mathematical problems''),
     (''String Algorithms'', ''String processing and pattern matching''),
     (''Geometry'', ''Computational geometry problems''),
     (''Advanced Techniques'', ''Complex algorithmic techniques''),
     (''Additional Problems'', ''Extra challenging problems'')]"

definition inheritedNames :: "string list" where
  "inheritedNames =
    [''constructor'', ''toString'', ''toLocaleString'', ''valueOf'', ''hasOwnProperty'',
     ''isPrototypeOf'', ''propertyIsEnumerable'', ''__proto__'', ''__defineGetter__'',
     ''__defineSetter__'', ''__lookupGetter__'', ''__lookupSetter__'']"

text \<open>\<open>descriptions[title] || 'Programming problems and algorithms'\<close>.\<close>

definition getTopicDescription :: "string \<Rightarrow> description" where
  "getTopicDescription t =
     (case map_of ownDescriptions t of
        Some d \<Rightarrow> Text d
      | None \<Rightarrow> if t \<in> set inheritedNames then Inherited t
                else Text ''Programming problems and algorithms'')"

text \<open>The fallback list, written out in both places that return it.\<close>

definition fallbackEntry :: "string \<Rightarrow> string \<Rightarrow> nat \<Rightarrow> string \<Rightarrow> topic" where
  "fallbackEntry t s n d =
     \<lparr>topic.title = t, topic.slug = s, topic.count = n, topic.problems = None,
      topic.url = topicsUrl, topic.description = Some (Text d)\<rparr>"

definition fallbackTopics :: "topic list" where
  "fallbackTopics =
    [fallbackEntry ''Introductory Problems'' ''introductory-problems'' 19
       ''Basic programming problems to get started'',
     fallbackEntry ''Sorting and Searching'' ''sorting-and-searching'' 35
       ''Fundamental algorithms for sorting and searching'',
     fallbackEntry ''Dynamic Programming'' ''dynamic-programming'' 19
       ''Optimization problems using DP techniques'',
     fallbackEntry ''Graph Algorithms'' ''graph-algorithms'' 36
       ''Tree and graph traversal algorithms'',
     fallbackEntry ''Range Queries'' ''range-queries'' 19
       ''Efficient range query data structures'',
     fallbackEntry ''Tree Algorithms'' ''tree-algorithms'' 16
       ''Advanced tree manipulation algorithms'',
     fallbackEntry ''Mathematics'' ''mathematics'' 31
       ''Number theory and mathematical problems'',
     fallbackEntry ''String Algorithms'' ''string-algorithms'' 17
       ''String processing and pattern matching'',
     fallbackEntry ''Geometry'' ''geometry'' 7
       ''Computational geometry problems'',
     fallbackEntry ''Advanced Techniques'' ''advanced-techniques'' 24
       ''Complex algorithmic techniques'',
     fallbackEntry ''Additional Problems'' ''additional-problems'' 77
       ''Extra challenging problems'']"

record topicsResult =
  success :: bool
  fromCache :: "bool option"
  error :: "string option"
  topics :: "topic list"

definition fetchCSESTopics_try :: "(string \<Rightarrow> string + topicsPage) \<Rightarrow> string + topicsResult" where
  "fetchCSESTopics_try axios_get =
     (case axios_get topicsUrl of
        Inl message \<Rightarrow> Inl message
      | Inr page \<Rightarrow>
          (let filtered = filterTopics [] (parseTopics page)
           in if filtered = []
              then Inr \<lparr>topicsResult.success = True, topicsResult.fromCache = Some True,
                        topicsResult.error = None, topicsResult.topics = fallbackTopics\<rparr>
              else Inr \<lparr>topicsResult.success = True, topicsResult.fromCache = None,
                        topicsResult.error = None,
                        topicsResult.topics =
                          map (\<lambda>t. t\<lparr>topic.description :=
                                        Some (getTopicDescription (topic.title t))\<rparr>) filtered\<rparr>))"

definition fetchCSESTopics :: "(string \<Rightarrow> string + topicsPage) \<Rightarrow> topicsResult" where
  "fetchCSESTopics axios_get =
     (case fetchCSESTopics_try axios_get of
        Inr r \<Rightarrow> r
      | Inl message \<Rightarrow>
          \<lparr>topicsResult.success = True, topicsResult.fromCache = Some True,
           topicsResult.error = Some message, topicsResult.topics = fallbackTopics\<rparr>)"

section \<open>Predicates of the statements\<close>


text \<open>The ids of the solved problems as \<open>parseInt\<close> reads them, NaN left out.\<close>

definition parsedIds :: "solvedProblem list \<Rightarrow> int list" where
  "parsedIds ps = List.map_filter (\<lambda>p. parseInt (id_p p)) ps"


text \<open>
  How often the daily solves list the problem key \<open>k\<close> under the date \<open>d\<close>; the
  accepted submissions; the submissions made as a contestant.
\<close>

definition timesListed :: "dailySolves \<Rightarrow> string \<Rightarrow> string \<Rightarrow> nat" where
  "timesListed ds d k =
     (case map_of ds d of None \<Rightarrow> 0 | Some day \<Rightarrow> length (filter (\<lambda>p. key p = k) day))"

definition accepted :: "submission \<Rightarrow> bool" where
  "accepted s \<longleftrightarrow> verdict s = Some ''OK''"

definition contestant :: "submission \<Rightarrow> bool" where
  "contestant s \<longleftrightarrow> participantType (author s) = ''CONTESTANT''"

section \<open>Sample payloads\<close>

text \<open>
  A \<open>user.status\<close> answer, newest submission first as the API returns it, with three
  accepted submissions of problem 1700A on 1, 2 and 3 January 2024 and one of 1700B,
  and an answer with submissions of every participant type.
\<close>

definition mkSubmission ::
  "int \<Rightarrow> string \<Rightarrow> string \<Rightarrow> int \<Rightarrow> int \<Rightarrow> string \<Rightarrow> string \<Rightarrow> submission" where
  "mkSubmission c i n r t who v =
     \<lparr>submission.contestId = Some c, creationTimeSeconds = t,
      submission.problem = \<lparr>problem.contestId = Some c, problem.index = i,
                             problem.name = n, problem.rating = Some r\<rparr>,
      author = \<lparr>participantType = who\<rparr>, verdict = Some v\<rparr>"

definition sampleSubmissions :: "submission list" where
  "sampleSubmissions =
    [mkSubmission 1700 ''A'' ''Optimal Path'' 800 1704283200 ''PRACTICE'' ''OK'',
     mkSubmission 1700 ''B'' ''Palindromic Numbers'' 1100 1704200400 ''PRACTICE'' ''OK'',
     mkSubmission 1700 ''A'' ''Optimal Path'' 800 1704196800 ''PRACTICE'' ''OK'',
     mkSubmission 1700 ''A'' ''Optimal Path'' 800 1704110400 ''CONTESTANT'' ''OK'']"

definition contestSubmissions :: "submission list" where
  "contestSubmissions =
    [mkSubmission 1703 ''C'' ''Doremy's City Construction'' 1400 1704283200 ''CONTESTANT'' ''OK'',
     mkSubmission 1702 ''A'' ''Round Down the Price'' 800 1704200400 ''VIRTUAL'' ''OK'',
     mkSubmission 1701 ''A'' ''Keyboard Journey'' 800 1704196800 ''PRACTICE'' ''OK'',
     mkSubmission 1700 ''B'' ''Palindromic Numbers'' 1100 1704114000 ''CONTESTANT'' ''WRONG_ANSWER'',
     mkSubmission 1700 ''A'' ''Optimal Path'' 800 1704110400 ''CONTESTANT'' ''OK'']"

definition contestStatus :: "string \<Rightarrow> string + submission list apiResponse" where
  "contestStatus u = Inr \<lparr>status = ''OK'', result = contestSubmissions\<rparr>"

definition sampleInfo :: "string \<Rightarrow> string + userInfo list apiResponse" where
  "sampleInfo u = Inr \<lparr>status = ''OK'',
     result = [\<lparr>userInfo.rating = Some 1500, userInfo.maxRating = Some 1600\<rparr>]\<rparr>"

definition sampleStatus :: "string \<Rightarrow> string + submission list apiResponse" where
  "sampleStatus u = Inr \<lparr>status = ''OK'', result = sampleSubmissions\<rparr>"

text \<open>
  A user page with two solved tasks, and four worlds: in \<open>sampleWorld\<close> CSES and
  Codeforces answer and VJudge does not; in \<open>csesDownWorld\<close> CSES times out as well;
  in \<open>failingWorld\<close> no platform answers; \<open>laterWorld\<close> is \<open>sampleWorld\<close> with the
  same answers ten minutes later.
\<close>

definition samplePage :: "scoreCell list" where
  "samplePage =
    [\<lparr>taskText = ''Weird Algorithm'', taskHref = Some ''/problemset/task/1068''\<rparr>,
     \<lparr>taskText = ''Missing Number'', taskHref = Some ''/problemset/task/1083''\<rparr>]"

definition sampleWorld :: world where
  "sampleWorld =
     \<lparr>csesGet = (\<lambda>u. Inr samplePage),
      cfInfoGet = sampleInfo,
      cfStatusGet = sampleStatus,
      vjudgeGet = (\<lambda>u. Inl ''Request failed with status code 404''),
      toDateString = utcDateString,
      dateOf = (\<lambda>s. ''Invalid Date''),
      syncNow = ''2024-01-05T00:00:00.000Z'',
      csesNow = ''2024-01-05T00:00:00.450Z'',
      cfNow = ''2024-01-05T00:00:01.200Z'',
      vjudgeNow = ''2024-01-05T00:00:00.300Z''\<rparr>"

definition csesDownWorld :: world where
  "csesDownWorld = sampleWorld\<lparr>csesGet := (\<lambda>u. Inl ''timeout of 10000ms exceeded'')\<rparr>"

definition failingWorld :: world where
  "failingWorld = csesDownWorld\<lparr>cfInfoGet := (\<lambda>u. Inl ''Network Error'')\<rparr>"

definition laterWorld :: world where
  "laterWorld =
     sampleWorld\<lparr>syncNow := ''2024-01-05T00:10:00.000Z'',
                  csesNow := ''2024-01-05T00:10:00.450Z'',
                  cfNow := ''2024-01-05T00:10:01.200Z'',
                  vjudgeNow := ''2024-01-05T00:10:00.300Z''\<rparr>"

definition sampleUsernames :: usernames where
  "sampleUsernames =
     \<lparr>usernames.cses = Some ''alice'', usernames.codeforces = Some ''tourist'',
      usernames.vjudge = Some ''bob''\<rparr>"

text \<open>The results of a sync with its timestamps blanked.\<close>

definition withoutTimes :: "syncResults \<Rightarrow> syncResults" where
  "withoutTimes r =
     \<lparr>syncResults.cses =
        map_option (\<lambda>x. x\<lparr>csesResult.lastUpdated := None\<rparr>) (syncResults.cses r),
      syncResults.codeforces =
        map_option (\<lambda>x. x\<lparr>cfResult.lastUpdated := None\<rparr>) (syncResults.codeforces r),
      syncResults.vjudge =
        map_option (\<lambda>x. x\<lparr>vjudgeResult.lastUpdated := None\<rparr>) (syncResults.vjudge r),
      syncResults.syncTime = []\<rparr>"

text \<open>
  Two pages that the parser cannot read: one with no heading and no candidate element,
  one whose only heading has no task link after it.
\<close>

definition blankPage :: topicsPage where
  "blankPage = \<lparr>headings = [], candidates = []\<rparr>"

definition barePage :: topicsPage where
  "barePage =
     \<lparr>headings = [\<lparr>headingText = ''Access denied'', siblings = [[]]\<rparr>],
      candidates = [\<lparr>elementText = ''Problems'', parentTaskLinks = 0\<rparr>]\<rparr>"

text \<open>
  A VJudge profile page and a submissions page, a network on which only the profile
  request of the user bob succeeds and one on which both requests do, and usernames
  that name VJudge alone. The submission rows have no time stamp, and the date of the
  empty string is \<open>Invalid Date\<close>.
\<close>

definition sampleProfile :: vjudgePage where
  "sampleProfile =
     \<lparr>solvedText = '' 42 '', submittedText = ''100'',
      activityCells = [\<lparr>cellText = ''3'', dataDate = Some ''2024-01-01''\<rparr>,
                       \<lparr>cellText = ''0'', dataDate = Some ''2024-01-02''\<rparr>],
      submissionRows = []\<rparr>"

definition sampleSubmissionsPage :: vjudgePage where
  "sampleSubmissionsPage =
     \<lparr>solvedText = [], submittedText = [], activityCells = [],
      submissionRows = [\<lparr>statusText = ''Accepted'', problemTitle = ''A + B Problem'',
                         timestampText = []\<rparr>,
                        \<lparr>statusText = ''Wrong Answer'', problemTitle = ''Two Sum'',
                         timestampText = []\<rparr>]\<rparr>"

definition vjudgeProfileOnly :: "string \<Rightarrow> string + vjudgePage" where
  "vjudgeProfileOnly u =
     (if u = ''https://vjudge.net/user/bob'' then Inr sampleProfile
      else Inl ''timeout of 10000ms exceeded'')"

definition vjudgeBoth :: "string \<Rightarrow> string + vjudgePage" where
  "vjudgeBoth u =
     (if u = ''https://vjudge.net/user/bob'' then Inr sampleProfile
      else Inr sampleSubmissionsPage)"

definition vjudgeOnly :: usernames where
  "vjudgeOnly =
     \<lparr>usernames.cses = None, usernames.codeforces = Some [],
      usernames.vjudge = Some ''bob''\<rparr>"

section \<open>Classification: results\<close>

lemma firstBucket_Some:
  "firstBucket i tbl = Some c \<Longrightarrow> \<exists>ids. (c, ids) \<in> set tbl \<and> idsInclude ids i"
  by (induction i tbl rule: firstBucket.induct) (auto split: if_splits)

lemma firstBucket_None:
  "firstBucket i tbl = None \<longleftrightarrow> (\<forall>b\<in>set tbl. \<not> idsInclude (snd b) i)"
  by (induction i tbl rule: firstBucket.induct) auto

lemma countProblem_unclassified:
  "categorizeCSESProblem (id_p p) getCSESCategories = None \<Longrightarrow> countProblem cats p = cats"
  by (simp add: countProblem_def)

lemma countProblem_other:
  "categorizeCSESProblem (id_p p) getCSESCategories = Some c \<Longrightarrow> c' \<noteq> c \<Longrightarrow>
     map_of (countProblem cats p) c' = map_of cats c'"
  by (simp add: countProblem_def update_conv' split: option.splits)

text \<open>
  C2. An id that some bucket of the table holds is classified into a category whose
  bucket holds it; an id that no bucket holds is classified as \<open>null\<close>, and the sync
  then counts the problem in no category.
\<close>

theorem categorizeCSESProblem_bucket_or_null:
  "((\<exists>b\<in>set tbl. idsInclude (snd b) (parseInt pid)) \<longrightarrow>
      (\<exists>c ids. categorizeCSESProblem pid tbl = Some c \<and> (c, ids) \<in> set tbl
         \<and> idsInclude ids (parseInt pid)))
   \<and> ((\<forall>b\<in>set tbl. \<not> idsInclude (snd b) (parseInt pid)) \<longrightarrow>
        categorizeCSESProblem pid tbl = None)
   \<and> (categorizeCSESProblem (id_p p) getCSESCategories = None \<longrightarrow>
        countProblem cats p = cats)"
proof (intro conjI impI)
  assume "\<exists>b\<in>set tbl. idsInclude (snd b) (parseInt pid)"
  then have "firstBucket (parseInt pid) tbl \<noteq> None"
    by (simp add: firstBucket_None)
  then obtain c where c: "firstBucket (parseInt pid) tbl = Some c" by blast
  from firstBucket_Some [OF c] c
  show "\<exists>c ids. categorizeCSESProblem pid tbl = Some c \<and> (c, ids) \<in> set tbl
         \<and> idsInclude ids (parseInt pid)"
    by (auto simp: categorizeCSESProblem_def)
next
  assume "\<forall>b\<in>set tbl. \<not> idsInclude (snd b) (parseInt pid)"
  then show "categorizeCSESProblem pid tbl = None"
    by (simp add: categorizeCSESProblem_def firstBucket_None)
next
  assume "categorizeCSESProblem (id_p p) getCSESCategories = None"
  then show "countProblem cats p = cats" by (rule countProblem_unclassified)
qed

theorem categorizeCSESProblem_bucket_or_null_witness:
  "(\<exists>b\<in>set getCSESCategories. idsInclude (snd b) (parseInt ''1068''))
   \<and> categorizeCSESProblem ''1068'' getCSESCategories = Some ''intro''
   \<and> (\<exists>c ids. categorizeCSESProblem ''1068'' getCSESCategories = Some c
         \<and> (c, ids) \<in> set getCSESCategories \<and> idsInclude ids (parseInt ''1068''))
   \<and> \<not> (\<exists>b\<in>set getCSESCategories. idsInclude (snd b) (parseInt ''9999''))
   \<and> categorizeCSESProblem ''9999'' getCSESCategories = None
   \<and> countProblem initialCategories \<lparr>solvedProblem.name = ''Nine'', id_p = ''9999'', solved_p = True\<rparr>
       = initialCategories"
proof -
  have p1: "parseInt ''1068'' = Some 1068" and p2: "parseInt ''9999'' = Some 9999"
    by code_simp+
  have h1: "\<exists>b\<in>set getCSESCategories. idsInclude (snd b) (parseInt ''1068'')"
    unfolding p1 by code_simp
  have h2: "\<forall>b\<in>set getCSESCategories. \<not> idsInclude (snd b) (parseInt ''9999'')"
    unfolding p2 by code_simp
  have e1: "categorizeCSESProblem ''1068'' getCSESCategories = Some ''intro''"
    by code_simp
  note a = categorizeCSESProblem_bucket_or_null
             [of getCSESCategories "''1068''" "\<lparr>solvedProblem.name = ''Nine'', id_p = ''9999'', solved_p = True\<rparr>" initialCategories]
  note b = categorizeCSESProblem_bucket_or_null
             [of getCSESCategories "''9999''" "\<lparr>solvedProblem.name = ''Nine'', id_p = ''9999'', solved_p = True\<rparr>" initialCategories]
  from a h1 have c1: "\<exists>c ids. categorizeCSESProblem ''1068'' getCSESCategories = Some c
         \<and> (c, ids) \<in> set getCSESCategories \<and> idsInclude ids (parseInt ''1068'')" by blast
  from b h2 have c2: "categorizeCSESProblem ''9999'' getCSESCategories = None" by blast
  from b c2 have c3: "countProblem initialCategories \<lparr>solvedProblem.name = ''Nine'', id_p = ''9999'', solved_p = True\<rparr>
       = initialCategories" by simp
  from h1 e1 c1 h2 c2 c3 show ?thesis by blast
qed

lemma firstBucket_first:
  "firstBucket i tbl = Some c \<longleftrightarrow>
     (\<exists>pre ids post. tbl = pre @ (c, ids) # post \<and> idsInclude ids i
        \<and> \<not> (\<exists>b\<in>set pre. idsInclude (snd b) i))"
proof (induction i tbl rule: firstBucket.induct)
  case (1 i)
  then show ?case by simp
next
  case (2 i category ids rest)
  show ?case
  proof (cases "idsInclude ids i")
    case True
    have "\<exists>pre ids' post. (category, ids) # rest = pre @ (category, ids') # post
            \<and> idsInclude ids' i \<and> \<not> (\<exists>b\<in>set pre. idsInclude (snd b) i)"
      using True by (intro exI[of _ "[]"] exI[of _ ids] exI[of _ rest]) simp
    moreover have "c = category"
      if "(category, ids) # rest = pre @ (c, ids') # post"
         "\<not> (\<exists>b\<in>set pre. idsInclude (snd b) i)" for pre ids' post
      using that True by (cases pre) auto
    ultimately show ?thesis using True by auto
  next
    case False
    have "(\<exists>pre ids' post. (category, ids) # rest = pre @ (c, ids') # post \<and> idsInclude ids' i
             \<and> \<not> (\<exists>b\<in>set pre. idsInclude (snd b) i)) \<longleftrightarrow>
          (\<exists>pre ids' post. rest = pre @ (c, ids') # post \<and> idsInclude ids' i
             \<and> \<not> (\<exists>b\<in>set pre. idsInclude (snd b) i))" (is "?L \<longleftrightarrow> ?R")
    proof
      assume ?L
      then obtain pre ids' post where h: "(category, ids) # rest = pre @ (c, ids') # post"
        "idsInclude ids' i" "\<not> (\<exists>b\<in>set pre. idsInclude (snd b) i)" by blast
      show ?R
      proof (cases pre)
        case Nil
        with h False show ?thesis by auto
      next
        case (Cons a pre')
        with h have "rest = pre' @ (c, ids') # post" "\<not> (\<exists>b\<in>set pre'. idsInclude (snd b) i)"
          by auto
        with h(2) show ?thesis by blast
      qed
    next
      assume ?R
      then obtain pre ids' post where h: "rest = pre @ (c, ids') # post"
        "idsInclude ids' i" "\<not> (\<exists>b\<in>set pre. idsInclude (snd b) i)" by blast
      have "(category, ids) # rest = ((category, ids) # pre) @ (c, ids') # post"
        using h by simp
      moreover have "\<not> (\<exists>b\<in>set ((category, ids) # pre). idsInclude (snd b) i)"
        using h False by simp
      ultimately show ?L using h(2) by blast
    qed
    with 2 False show ?thesis by simp
  qed
qed

lemma categorize_static:
  "parseInt pid = Some 1619 \<Longrightarrow> categorizeCSESProblem pid getCSESCategories = Some ''intro''"
  "parseInt pid = Some 1097 \<Longrightarrow> categorizeCSESProblem pid getCSESCategories = Some ''sort''"
  "parseInt pid = Some 1674 \<Longrightarrow> categorizeCSESProblem pid getCSESCategories = Some ''graph''"
  by (simp_all add: categorizeCSESProblem_def getCSESCategories_def idsInclude_def)

text \<open>
  C9. The classifier returns the first bucket, in the order of the table, that holds
  the id. In the static table, whose order is intro, sort, dp, graph, range, tree, the
  ids 1619, 1097 and 1674, each in two buckets, go to intro, sort and graph, and the
  sync counts a problem in no category but the one returned.
\<close>

theorem categorizeCSESProblem_first_match:
  "(categorizeCSESProblem pid tbl = Some c \<longleftrightarrow>
      (\<exists>pre ids post. tbl = pre @ (c, ids) # post \<and> idsInclude ids (parseInt pid)
         \<and> \<not> (\<exists>b\<in>set pre. idsInclude (snd b) (parseInt pid))))
   \<and> map fst getCSESCategories = [''intro'', ''sort'', ''dp'', ''graph'', ''range'', ''tree'']
   \<and> (parseInt pid = Some 1619 \<longrightarrow> categorizeCSESProblem pid getCSESCategories = Some ''intro'')
   \<and> (parseInt pid = Some 1097 \<longrightarrow> categorizeCSESProblem pid getCSESCategories = Some ''sort'')
   \<and> (parseInt pid = Some 1674 \<longrightarrow> categorizeCSESProblem pid getCSESCategories = Some ''graph'')
   \<and> (\<exists>a b. map_of getCSESCategories ''intro'' = Some a
          \<and> map_of getCSESCategories ''sort'' = Some b \<and> 1619 \<in> set a \<and> 1619 \<in> set b)
   \<and> (\<exists>a b. map_of getCSESCategories ''sort'' = Some a
          \<and> map_of getCSESCategories ''dp'' = Some b \<and> 1097 \<in> set a \<and> 1097 \<in> set b)
   \<and> (\<exists>a b. map_of getCSESCategories ''graph'' = Some a
          \<and> map_of getCSESCategories ''tree'' = Some b \<and> 1674 \<in> set a \<and> 1674 \<in> set b)
   \<and> (categorizeCSESProblem (id_p p) getCSESCategories = Some c' \<longrightarrow>
        (\<forall>k. k \<noteq> c' \<longrightarrow> map_of (countProblem cats p) k = map_of cats k))"
proof -
  have "map fst getCSESCategories = [''intro'', ''sort'', ''dp'', ''graph'', ''range'', ''tree'']"
    by (simp add: getCSESCategories_def)
  moreover have "\<exists>a b. map_of getCSESCategories ''intro'' = Some a
          \<and> map_of getCSESCategories ''sort'' = Some b \<and> 1619 \<in> set a \<and> 1619 \<in> set b"
    by (simp add: getCSESCategories_def)
  moreover have "\<exists>a b. map_of getCSESCategories ''sort'' = Some a
          \<and> map_of getCSESCategories ''dp'' = Some b \<and> 1097 \<in> set a \<and> 1097 \<in> set b"
    by (simp add: getCSESCategories_def)
  moreover have "\<exists>a b. map_of getCSESCategories ''graph'' = Some a
          \<and> map_of getCSESCategories ''tree'' = Some b \<and> 1674 \<in> set a \<and> 1674 \<in> set b"
    by (simp add: getCSESCategories_def)
  moreover have "categorizeCSESProblem (id_p p) getCSESCategories = Some c' \<longrightarrow>
        (\<forall>k. k \<noteq> c' \<longrightarrow> map_of (countProblem cats p) k = map_of cats k)"
    by (simp add: countProblem_other)
  ultimately show ?thesis
    using firstBucket_first [of "parseInt pid" tbl c] categorize_static [of pid]
    by (simp add: categorizeCSESProblem_def)
qed

theorem categorizeCSESProblem_first_match_witness:
  "parseInt ''1619'' = Some 1619 \<and> parseInt ''1097'' = Some 1097 \<and> parseInt ''1674'' = Some 1674
   \<and> categorizeCSESProblem ''1619'' getCSESCategories = Some ''intro''
   \<and> categorizeCSESProblem ''1097'' getCSESCategories = Some ''sort''
   \<and> categorizeCSESProblem ''1674'' getCSESCategories = Some ''graph''
   \<and> map_of (countProblem initialCategories
               \<lparr>solvedProblem.name = ''Tree Diameter'', id_p = ''1674'', solved_p = True\<rparr>) ''tree''
       = map_of initialCategories ''tree''"
proof -
  have p: "parseInt ''1619'' = Some 1619" "parseInt ''1097'' = Some 1097"
    "parseInt ''1674'' = Some 1674"
    by code_simp+
  note a = categorizeCSESProblem_first_match [of "''1619''" getCSESCategories "''intro''"
      "\<lparr>solvedProblem.name = ''Tree Diameter'', id_p = ''1674'', solved_p = True\<rparr>" "''graph''"
      initialCategories]
  note b = categorizeCSESProblem_first_match [of "''1097''" getCSESCategories "''sort''"
      "\<lparr>solvedProblem.name = ''Tree Diameter'', id_p = ''1674'', solved_p = True\<rparr>" "''graph''"
      initialCategories]
  note c = categorizeCSESProblem_first_match [of "''1674''" getCSESCategories "''graph''"
      "\<lparr>solvedProblem.name = ''Tree Diameter'', id_p = ''1674'', solved_p = True\<rparr>" "''graph''"
      initialCategories]
  from a p have r1: "categorizeCSESProblem ''1619'' getCSESCategories = Some ''intro''" by blast
  from b p have r2: "categorizeCSESProblem ''1097'' getCSESCategories = Some ''sort''" by blast
  from c p have r3: "categorizeCSESProblem ''1674'' getCSESCategories = Some ''graph''" by blast
  from c r3 have r4: "map_of (countProblem initialCategories
               \<lparr>solvedProblem.name = ''Tree Diameter'', id_p = ''1674'', solved_p = True\<rparr>) ''tree''
       = map_of initialCategories ''tree''" by simp
  from p r1 r2 r3 r4 show ?thesis by blast
qed

section \<open>Counters: results\<close>







lemma categorize_keys:
  "categorizeCSESProblem pid getCSESCategories = Some k \<Longrightarrow>
     k \<in> {''intro'', ''sort'', ''dp'', ''graph'', ''range'', ''tree''}"
  using firstBucket_Some [of "parseInt pid" getCSESCategories k]
  by (auto simp: categorizeCSESProblem_def getCSESCategories_def)








lemma parsedIds_Cons:
  "parsedIds (p # ps) = (case parseInt (id_p p) of None \<Rightarrow> parsedIds ps | Some n \<Rightarrow> n # parsedIds ps)"
  by (simp add: parsedIds_def map_filter_simps split: option.splits)

lemma set_parsedIds: "set (parsedIds ps) = {n. \<exists>p\<in>set ps. parseInt (id_p p) = Some n}"
  by (induction ps) (auto simp: parsedIds_Cons parsedIds_def map_filter_simps split: option.splits)







lemma fetchCSESProgress_success:
  "axios_get (csesBaseUrl @ ''/user/'' @ u) = Inr cells \<Longrightarrow>
     fetchCSESProgress axios_get now u =
       \<lparr>csesResult.success = True, csesResult.error = None,
        csesResult.totalSolved = length (parseSolvedProblems cells),
        csesResult.categories = Some (categorizeAll (parseSolvedProblems cells)),
        csesResult.lastUpdated = Some now\<rparr>"
  by (simp add: fetchCSESProgress_def fetchCSESProgress_try_def Let_def)











section \<open>Codeforces: results\<close>

lemma set_setAdd: "set (setAdd x xs) = insert x (set xs)"
  by (auto simp: setAdd_def)

lemma distinct_setAdd: "distinct xs \<Longrightarrow> distinct (setAdd x xs)"
  by (simp add: setAdd_def)

lemma foldl_recordContest_set:
  "set (foldl recordContest cs subs)
     = set cs \<union> submission.contestId ` {s \<in> set subs. contestant s}"
  by (induction subs arbitrary: cs) (auto simp: recordContest_def set_setAdd contestant_def)

lemma foldl_recordContest_distinct:
  "distinct cs \<Longrightarrow> distinct (foldl recordContest cs subs)"
  by (induction subs arbitrary: cs) (simp_all add: recordContest_def distinct_setAdd)

lemma contests_count:
  "length (foldl recordContest [] subs)
     = card (submission.contestId ` {s \<in> set subs. contestant s})"
  using foldl_recordContest_set [of "[]" subs] foldl_recordContest_distinct [of "[]" subs]
    distinct_card [of "foldl recordContest [] subs"]
  by simp

lemma fst_recordSolve:
  "fst (recordSolve f acc s) = (if accepted s then setAdd (problemKeyOf s) (fst acc) else fst acc)"
  by (cases acc) (simp add: recordSolve_def accepted_def Let_def)

lemma foldl_recordSolve_set:
  "set (fst (foldl (recordSolve f) acc subs))
     = set (fst acc) \<union> problemKeyOf ` {s \<in> set subs. accepted s}"
  by (induction subs arbitrary: acc) (auto simp: fst_recordSolve set_setAdd)

lemma foldl_recordSolve_distinct:
  "distinct (fst acc) \<Longrightarrow> distinct (fst (foldl (recordSolve f) acc subs))"
  by (induction subs arbitrary: acc) (simp_all add: fst_recordSolve distinct_setAdd)

lemma solved_count:
  "length (fst (foldl (recordSolve f) ([], []) subs))
     = card (problemKeyOf ` {s \<in> set subs. accepted s})"
  using foldl_recordSolve_set [of f "([], [])" subs]
    foldl_recordSolve_distinct [of "([], [])" f subs]
    distinct_card [of "fst (foldl (recordSolve f) ([], []) subs)"]
  by simp

lemma timesListed_recordSolve:
  assumes "timesListed (snd acc) d k \<le> 1"
  shows "timesListed (snd (recordSolve f acc s)) d k =
           (if accepted s \<and> f (creationTimeSeconds s * 1000) = d \<and> problemKeyOf s = k then 1
            else timesListed (snd acc) d k)"
proof (cases acc)
  case (Pair sp ds)
  show ?thesis
  proof (cases "accepted s")
    case False
    then show ?thesis using Pair by (simp add: recordSolve_def accepted_def)
  next
    case True
    define e where "e = f (creationTimeSeconds s * 1000)"
    define day where "day = (case map_of ds e of None \<Rightarrow> [] | Some l \<Rightarrow> l)"
    define entry where "entry = \<lparr>key = problemKeyOf s,
      dailySolve.name = problem.name (submission.problem s),
      dailySolve.rating = orElse (problem.rating (submission.problem s)) (Label ''Unrated'')\<rparr>"
    define day' where "day' = (if \<exists>p\<in>set day. key p = problemKeyOf s then day else day @ [entry])"
    have ok: "verdict s = Some ''OK''" using True by (simp add: accepted_def)
    have "recordSolve f (sp, ds) s = (setAdd (problemKeyOf s) sp, AList.update e day' ds)"
      unfolding recordSolve_def e_def day_def day'_def entry_def Let_def
      by (simp only: prod.case ok if_True simp_thms)
    then have step: "snd (recordSolve f acc s) = AList.update e day' ds"
      using Pair by simp
    have old: "timesListed ds e k' = length (filter (\<lambda>p. key p = k') day)" for k'
      by (simp add: timesListed_def day_def split: option.splits)
    have new: "timesListed (AList.update e dl ds) d k' =
        (if e = d then length (filter (\<lambda>p. key p = k') dl) else timesListed ds d k')" for k' dl
      by (simp add: timesListed_def update_conv')
    show ?thesis
    proof (cases "e = d \<and> problemKeyOf s = k")
      case False
      then have "timesListed (AList.update e day' ds) d k = timesListed ds d k"
        using old [of k] by (auto simp: new day'_def entry_def)
      with False Pair True step show ?thesis by (auto simp: e_def)
    next
      case hit: True
      have "length (filter (\<lambda>p. key p = k) day') = 1"
      proof (cases "\<exists>p\<in>set day. key p = k")
        case present: True
        then have "filter (\<lambda>p. key p = k) day \<noteq> []" by (simp add: filter_empty_conv)
        then have "length (filter (\<lambda>p. key p = k) day) \<ge> 1" by (simp add: Suc_leI)
        moreover have "length (filter (\<lambda>p. key p = k) day) \<le> 1"
          using assms Pair hit old [of k] by simp
        ultimately show ?thesis using present hit by (simp add: day'_def)
      next
        case absent: False
        then have "filter (\<lambda>p. key p = k) day = []" by (simp add: filter_empty_conv)
        then show ?thesis using absent hit by (simp add: day'_def entry_def)
      qed
      with hit Pair True step new [of day' k] show ?thesis by (auto simp: e_def)
    qed
  qed
qed

lemma timesListed_foldl:
  "timesListed (snd acc) d k \<le> 1 \<Longrightarrow>
     timesListed (snd (foldl (recordSolve f) acc subs)) d k =
       (if \<exists>s\<in>set subs. accepted s \<and> f (creationTimeSeconds s * 1000) = d \<and> problemKeyOf s = k
        then 1 else timesListed (snd acc) d k)"
proof (induction subs arbitrary: acc)
  case Nil
  then show ?case by simp
next
  case (Cons s subs)
  have le: "timesListed (snd (recordSolve f acc s)) d k \<le> 1"
    using Cons.prems by (simp add: timesListed_recordSolve)
  show ?case
    using Cons.IH [OF le] Cons.prems by (auto simp: timesListed_recordSolve)
qed

lemma dailySolves_listing:
  "timesListed (snd (foldl (recordSolve f) ([], []) subs)) d k =
     (if \<exists>s\<in>set subs. accepted s \<and> f (creationTimeSeconds s * 1000) = d \<and> problemKeyOf s = k
      then 1 else 0)"
proof -
  have "timesListed (snd (([], []) :: string list \<times> dailySolves)) d k = 0"
    by (simp add: timesListed_def)
  then show ?thesis
    using timesListed_foldl [of "([], [])" d k f subs] by auto
qed

lemma fetchCodeforcesProgress_success:
  assumes "getInfo (codeforcesBaseUrl @ ''/user.info?handles='' @ user) = Inr ui"
    and "status ui = ''OK''" and "result ui = info # rest"
    and "getStatus (codeforcesBaseUrl @ ''/user.status?handle='' @ user
           @ ''&from=1&count=10000'') = Inr sr"
    and "status sr = ''OK''"
  shows "fetchCodeforcesProgress getInfo getStatus f now user =
     \<lparr>cfResult.success = True, cfResult.error = None, cfResult.username = Some user,
      cfResult.rating = orElse (userInfo.rating info) (Label ''Unrated''),
      cfResult.maxRating = Some (orElse (userInfo.maxRating info)
                                   (orElse (userInfo.rating info) (Label ''Unrated''))),
      cfResult.problemsSolved = length (fst (foldl (recordSolve f) ([], []) (result sr))),
      cfResult.contests = length (foldl recordContest [] (result sr)),
      cfResult.dailySolves = Some (snd (foldl (recordSolve f) ([], []) (result sr))),
      cfResult.lastUpdated = Some now\<rparr>"
  using assms
  by (simp add: fetchCodeforcesProgress_def fetchCodeforcesProgress_try_def Let_def)

text \<open>
  C7. When the fetch succeeds, the contests counter is the number of distinct
  \<open>contestId\<close> values among the submissions whose participant type is CONTESTANT.
\<close>

theorem contests_counts_contestant_ids:
  "getInfo (codeforcesBaseUrl @ ''/user.info?handles='' @ user) = Inr ui
   \<and> status ui = ''OK'' \<and> result ui \<noteq> []
   \<and> getStatus (codeforcesBaseUrl @ ''/user.status?handle='' @ user
         @ ''&from=1&count=10000'') = Inr sr
   \<and> status sr = ''OK''
   \<longrightarrow> cfResult.contests (fetchCodeforcesProgress getInfo getStatus f now user)
        = card (submission.contestId `
                  {s \<in> set (result sr). participantType (author s) = ''CONTESTANT''})"
proof (intro impI, elim conjE)
  assume a: "getInfo (codeforcesBaseUrl @ ''/user.info?handles='' @ user) = Inr ui"
    "status ui = ''OK''" "result ui \<noteq> []"
    "getStatus (codeforcesBaseUrl @ ''/user.status?handle='' @ user
         @ ''&from=1&count=10000'') = Inr sr" "status sr = ''OK''"
  then obtain info rest where r: "result ui = info # rest" by (cases "result ui") auto
  show "cfResult.contests (fetchCodeforcesProgress getInfo getStatus f now user)
        = card (submission.contestId `
                  {s \<in> set (result sr). participantType (author s) = ''CONTESTANT''})"
    using fetchCodeforcesProgress_success
            [where getInfo = getInfo and getStatus = getStatus and user = user,
             OF a(1,2) r a(4,5)]
          contests_count [of "result sr"]
    by (simp add: contestant_def)
qed

theorem contests_counts_contestant_ids_witness:
  "sampleInfo (codeforcesBaseUrl @ ''/user.info?handles='' @ ''tourist'')
     = Inr \<lparr>status = ''OK'',
            result = [\<lparr>userInfo.rating = Some 1500, userInfo.maxRating = Some 1600\<rparr>]\<rparr>
   \<and> contestStatus (codeforcesBaseUrl @ ''/user.status?handle='' @ ''tourist''
         @ ''&from=1&count=10000'') = Inr \<lparr>status = ''OK'', result = contestSubmissions\<rparr>
   \<and> cfResult.contests (fetchCodeforcesProgress sampleInfo contestStatus utcDateString
         ''2024-01-05T00:00:00.000Z'' ''tourist'')
       = card (submission.contestId `
                 {s \<in> set contestSubmissions. participantType (author s) = ''CONTESTANT''})
   \<and> cfResult.contests (fetchCodeforcesProgress sampleInfo contestStatus utcDateString
         ''2024-01-05T00:00:00.000Z'' ''tourist'') = 2"
proof -
  let ?ui = "\<lparr>status = ''OK'',
            result = [\<lparr>userInfo.rating = Some 1500, userInfo.maxRating = Some 1600\<rparr>]\<rparr>"
  let ?sr = "\<lparr>status = ''OK'', result = contestSubmissions\<rparr>"
  have h1: "sampleInfo (codeforcesBaseUrl @ ''/user.info?handles='' @ ''tourist'') = Inr ?ui"
    by (simp add: sampleInfo_def)
  have h2: "contestStatus (codeforcesBaseUrl @ ''/user.status?handle='' @ ''tourist''
         @ ''&from=1&count=10000'') = Inr ?sr"
    by (simp add: contestStatus_def)
  have c: "cfResult.contests (fetchCodeforcesProgress sampleInfo contestStatus utcDateString
         ''2024-01-05T00:00:00.000Z'' ''tourist'')
       = card (submission.contestId `
                 {s \<in> set contestSubmissions. participantType (author s) = ''CONTESTANT''})"
    using contests_counts_contestant_ids [where getInfo = sampleInfo and getStatus = contestStatus
        and user = "''tourist''" and ui = ?ui and sr = ?sr and f = utcDateString
        and now = "''2024-01-05T00:00:00.000Z''"] h1 h2
    by simp
  have v: "length (foldl recordContest [] contestSubmissions) = 2"
    by (simp add: contestSubmissions_def mkSubmission_def recordContest_def setAdd_def)
  have "cfResult.contests (fetchCodeforcesProgress sampleInfo contestStatus utcDateString
         ''2024-01-05T00:00:00.000Z'' ''tourist'') = 2"
    using fetchCodeforcesProgress_success
            [where getInfo = sampleInfo and getStatus = contestStatus and user = "''tourist''"
               and f = utcDateString and now = "''2024-01-05T00:00:00.000Z''",
             OF h1 _ _ h2] v
    by simp
  with h1 h2 c show ?thesis by blast
qed

lemma showNat_1700: "showNat 1700 = ''1700''"
  by (simp add: showNat.simps [of 1700] showNat.simps [of 170] showNat.simps [of 17]
        showNat.simps [of "Suc 0"])

lemma showInt_1700: "showInt 1700 = ''1700''"
  by (simp add: showInt_def showNat_1700)

lemma key_1700:
  "problem.contestId (submission.problem s) = Some 1700 \<Longrightarrow>
     problemKeyOf s = ''1700'' @ problem.index (submission.problem s)"
  by (simp add: problemKeyOf_def interpolate_def showInt_1700)

text \<open>
  C3 (amended). For an answer whose accepted submissions are three of problem
  (1700, A), on three different calendar days, and one of (1700, B), the fetch reports
  two solved problems, and the daily solves list 1700A once under each of the three
  dates.
\<close>

theorem accepted_on_three_days:
  "getInfo (codeforcesBaseUrl @ ''/user.info?handles='' @ user) = Inr ui
   \<and> status ui = ''OK'' \<and> result ui \<noteq> []
   \<and> getStatus (codeforcesBaseUrl @ ''/user.status?handle='' @ user
         @ ''&from=1&count=10000'') = Inr sr
   \<and> status sr = ''OK''
   \<and> {s \<in> set (result sr). verdict s = Some ''OK''} = {a1, a2, a3, b}
   \<and> (\<forall>a\<in>{a1, a2, a3}. problem.contestId (submission.problem a) = Some 1700
                          \<and> problem.index (submission.problem a) = ''A'')
   \<and> problem.contestId (submission.problem b) = Some 1700
   \<and> problem.index (submission.problem b) = ''B''
   \<and> distinct [f (creationTimeSeconds a1 * 1000), f (creationTimeSeconds a2 * 1000),
                 f (creationTimeSeconds a3 * 1000)]
   \<longrightarrow> cfResult.problemsSolved (fetchCodeforcesProgress getInfo getStatus f now user) = 2
       \<and> (\<exists>ds. cfResult.dailySolves (fetchCodeforcesProgress getInfo getStatus f now user)
                  = Some ds
              \<and> timesListed ds (f (creationTimeSeconds a1 * 1000)) ''1700A'' = 1
              \<and> timesListed ds (f (creationTimeSeconds a2 * 1000)) ''1700A'' = 1
              \<and> timesListed ds (f (creationTimeSeconds a3 * 1000)) ''1700A'' = 1)"
proof (intro impI, elim conjE)
  assume a: "getInfo (codeforcesBaseUrl @ ''/user.info?handles='' @ user) = Inr ui"
    "status ui = ''OK''" "result ui \<noteq> []"
    "getStatus (codeforcesBaseUrl @ ''/user.status?handle='' @ user
         @ ''&from=1&count=10000'') = Inr sr" "status sr = ''OK''"
  assume acc: "{s \<in> set (result sr). verdict s = Some ''OK''} = {a1, a2, a3, b}"
  assume pa: "\<forall>a\<in>{a1, a2, a3}. problem.contestId (submission.problem a) = Some 1700
                          \<and> problem.index (submission.problem a) = ''A''"
  assume pb: "problem.contestId (submission.problem b) = Some 1700"
    "problem.index (submission.problem b) = ''B''"
  from a obtain info rest where r: "result ui = info # rest" by (cases "result ui") auto
  note res = fetchCodeforcesProgress_success
            [where getInfo = getInfo and getStatus = getStatus and user = user
               and f = f and now = now, OF a(1,2) r a(4,5)]
  have ka: "problemKeyOf a = ''1700A''" if "a \<in> {a1, a2, a3}" for a
    using pa that key_1700 [of a] by auto
  have kb: "problemKeyOf b = ''1700B''" using pb key_1700 [of b] by simp
  have acc': "{s \<in> set (result sr). accepted s} = {a1, a2, a3, b}"
    using acc by (simp add: accepted_def)
  have "problemKeyOf ` {s \<in> set (result sr). accepted s} = {''1700A'', ''1700B''}"
    unfolding acc' using ka kb by auto
  then have n: "length (fst (foldl (recordSolve f) ([], []) (result sr))) = 2"
    by (simp add: solved_count)
  have listed: "timesListed (snd (foldl (recordSolve f) ([], []) (result sr)))
                  (f (creationTimeSeconds a * 1000)) ''1700A'' = 1"
    if "a \<in> {a1, a2, a3}" for a
  proof -
    have "a \<in> {s \<in> set (result sr). accepted s}" using that acc' by auto
    then have "\<exists>s\<in>set (result sr). accepted s
        \<and> f (creationTimeSeconds s * 1000) = f (creationTimeSeconds a * 1000)
        \<and> problemKeyOf s = ''1700A''"
      using ka [OF that] by auto
    then show ?thesis by (simp add: dailySolves_listing)
  qed
  show "cfResult.problemsSolved (fetchCodeforcesProgress getInfo getStatus f now user) = 2
       \<and> (\<exists>ds. cfResult.dailySolves (fetchCodeforcesProgress getInfo getStatus f now user)
                  = Some ds
              \<and> timesListed ds (f (creationTimeSeconds a1 * 1000)) ''1700A'' = 1
              \<and> timesListed ds (f (creationTimeSeconds a2 * 1000)) ''1700A'' = 1
              \<and> timesListed ds (f (creationTimeSeconds a3 * 1000)) ''1700A'' = 1)"
    using n listed [of a1] listed [of a2] listed [of a3] by (simp add: res)
qed

lemma sample_requests:
  "sampleInfo (codeforcesBaseUrl @ ''/user.info?handles='' @ ''tourist'')
     = Inr \<lparr>status = ''OK'',
            result = [\<lparr>userInfo.rating = Some 1500, userInfo.maxRating = Some 1600\<rparr>]\<rparr>"
  "sampleStatus (codeforcesBaseUrl @ ''/user.status?handle='' @ ''tourist''
         @ ''&from=1&count=10000'') = Inr \<lparr>status = ''OK'', result = sampleSubmissions\<rparr>"
  by (simp_all add: sampleInfo_def sampleStatus_def)

lemma sample_days:
  "civilFromDays 19723 = (2024, 1, 1)"
  "civilFromDays 19724 = (2024, 1, 2)"
  "civilFromDays 19725 = (2024, 1, 3)"
  by code_simp+

lemma sample_digits:
  "showNat (Suc 0) = ''1''" "showNat 2 = ''2''" "showNat 3 = ''3''" "showNat 2024 = ''2024''"
  by (simp_all add: showNat.simps [of "Suc 0"] showNat.simps [of 2] showNat.simps [of 3]
        showNat.simps [of 2024] showNat.simps [of 202] showNat.simps [of 20])

lemma sample_dates:
  "utcDateString 1704110400000 = ''Mon Jan 01 2024''"
  "utcDateString 1704196800000 = ''Tue Jan 02 2024''"
  "utcDateString 1704200400000 = ''Tue Jan 02 2024''"
  "utcDateString 1704283200000 = ''Wed Jan 03 2024''"
  by (simp_all add: utcDateString_def sample_days sample_digits zeroPadded_def dayNames_def
        monthNames_def)

lemma sample_dailySolves:
  "map (\<lambda>e. (fst e, map key (snd e)))
       (snd (foldl (recordSolve utcDateString) ([], []) sampleSubmissions))
     = [(''Wed Jan 03 2024'', [''1700A'']), (''Tue Jan 02 2024'', [''1700B'', ''1700A'']),
        (''Mon Jan 01 2024'', [''1700A''])]"
  by (simp add: sampleSubmissions_def mkSubmission_def recordSolve_def Let_def sample_dates
        problemKeyOf_def interpolate_def showInt_1700 setAdd_def)

text \<open>
  On the sample answer the daily solves list 1700A under 2 and 3 January too, not only
  under 1 January, the date of its first accepted submission.
\<close>

theorem accepted_on_three_days_counterexample:
  "\<exists>ds. cfResult.dailySolves
          (fetchCodeforcesProgress sampleInfo sampleStatus utcDateString
             ''2024-01-05T00:00:00.000Z'' ''tourist'') = Some ds
     \<and> map (\<lambda>e. (fst e, map key (snd e))) ds
         = [(''Wed Jan 03 2024'', [''1700A'']), (''Tue Jan 02 2024'', [''1700B'', ''1700A'']),
            (''Mon Jan 01 2024'', [''1700A''])]
     \<and> timesListed ds ''Tue Jan 02 2024'' ''1700A'' = 1
     \<and> timesListed ds ''Wed Jan 03 2024'' ''1700A'' = 1
     \<and> \<not> (\<forall>d. 0 < timesListed ds d ''1700A'' \<longrightarrow> d = ''Mon Jan 01 2024'')"
proof -
  let ?ds = "snd (foldl (recordSolve utcDateString) ([], []) sampleSubmissions)"
  note res = fetchCodeforcesProgress_success
            [where getInfo = sampleInfo and getStatus = sampleStatus and user = "''tourist''"
               and f = utcDateString and now = "''2024-01-05T00:00:00.000Z''",
             OF sample_requests(1) _ _ sample_requests(2)]
  have t2: "timesListed ?ds ''Tue Jan 02 2024'' ''1700A'' = 1"
    unfolding dailySolves_listing
    by (simp add: sampleSubmissions_def mkSubmission_def accepted_def
          sample_dates problemKeyOf_def interpolate_def showInt_1700)
  have t3: "timesListed ?ds ''Wed Jan 03 2024'' ''1700A'' = 1"
    unfolding dailySolves_listing
    by (simp add: sampleSubmissions_def mkSubmission_def accepted_def
          sample_dates problemKeyOf_def interpolate_def showInt_1700)
  have "\<not> (\<forall>d. 0 < timesListed ?ds d ''1700A'' \<longrightarrow> d = ''Mon Jan 01 2024'')"
  proof
    assume "\<forall>d. 0 < timesListed ?ds d ''1700A'' \<longrightarrow> d = ''Mon Jan 01 2024''"
    with t3 have "''Wed Jan 03 2024'' = ''Mon Jan 01 2024''" by (metis zero_less_one)
    then show False by simp
  qed
  with t2 t3 sample_dailySolves show ?thesis by (simp add: res)
qed


theorem accepted_on_three_days_witness:
  "sampleSubmissions =
     [mkSubmission 1700 ''A'' ''Optimal Path'' 800 1704283200 ''PRACTICE'' ''OK'',
      mkSubmission 1700 ''B'' ''Palindromic Numbers'' 1100 1704200400 ''PRACTICE'' ''OK'',
      mkSubmission 1700 ''A'' ''Optimal Path'' 800 1704196800 ''PRACTICE'' ''OK'',
      mkSubmission 1700 ''A'' ''Optimal Path'' 800 1704110400 ''CONTESTANT'' ''OK'']
   \<and> distinct [utcDateString (1704110400 * 1000), utcDateString (1704196800 * 1000),
                 utcDateString (1704283200 * 1000)]
   \<and> cfResult.problemsSolved
         (fetchCodeforcesProgress sampleInfo sampleStatus utcDateString
            ''2024-01-05T00:00:00.000Z'' ''tourist'') = 2
   \<and> (\<exists>ds. cfResult.dailySolves
              (fetchCodeforcesProgress sampleInfo sampleStatus utcDateString
                 ''2024-01-05T00:00:00.000Z'' ''tourist'') = Some ds
          \<and> timesListed ds ''Mon Jan 01 2024'' ''1700A'' = 1
          \<and> timesListed ds ''Tue Jan 02 2024'' ''1700A'' = 1
          \<and> timesListed ds ''Wed Jan 03 2024'' ''1700A'' = 1)"
proof -
  let ?a1 = "mkSubmission 1700 ''A'' ''Optimal Path'' 800 1704110400 ''CONTESTANT'' ''OK''"
  let ?a2 = "mkSubmission 1700 ''A'' ''Optimal Path'' 800 1704196800 ''PRACTICE'' ''OK''"
  let ?a3 = "mkSubmission 1700 ''A'' ''Optimal Path'' 800 1704283200 ''PRACTICE'' ''OK''"
  let ?b = "mkSubmission 1700 ''B'' ''Palindromic Numbers'' 1100 1704200400 ''PRACTICE'' ''OK''"
  let ?ui = "\<lparr>status = ''OK'',
            result = [\<lparr>userInfo.rating = Some 1500, userInfo.maxRating = Some 1600\<rparr>]\<rparr>"
  let ?sr = "\<lparr>status = ''OK'', result = sampleSubmissions\<rparr>"
  have h1: "{s \<in> set (result ?sr). verdict s = Some ''OK''} = {?a1, ?a2, ?a3, ?b}"
    by (auto simp: sampleSubmissions_def mkSubmission_def)
  have h2: "\<forall>a\<in>{?a1, ?a2, ?a3}. problem.contestId (submission.problem a) = Some 1700
                          \<and> problem.index (submission.problem a) = ''A''"
    by (simp add: mkSubmission_def)
  have h3: "problem.contestId (submission.problem ?b) = Some 1700"
    "problem.index (submission.problem ?b) = ''B''"
    by (simp_all add: mkSubmission_def)
  have t: "creationTimeSeconds ?a1 = 1704110400" "creationTimeSeconds ?a2 = 1704196800"
    "creationTimeSeconds ?a3 = 1704283200"
    by (simp_all add: mkSubmission_def)
  have h4: "distinct [utcDateString (creationTimeSeconds ?a1 * 1000),
                 utcDateString (creationTimeSeconds ?a2 * 1000),
                 utcDateString (creationTimeSeconds ?a3 * 1000)]"
    by (simp add: t sample_dates)
  have d: "distinct [utcDateString (1704110400 * 1000), utcDateString (1704196800 * 1000),
                 utcDateString (1704283200 * 1000)]"
    by (simp add: sample_dates)
  note th = accepted_on_three_days
     [where getInfo = sampleInfo and getStatus = sampleStatus and user = "''tourist''"
        and ui = ?ui and sr = ?sr and f = utcDateString
        and now = "''2024-01-05T00:00:00.000Z''"
        and ?a1.0 = ?a1 and ?a2.0 = ?a2 and ?a3.0 = ?a3 and b = ?b]
  have "cfResult.problemsSolved
         (fetchCodeforcesProgress sampleInfo sampleStatus utcDateString
            ''2024-01-05T00:00:00.000Z'' ''tourist'') = 2
   \<and> (\<exists>ds. cfResult.dailySolves
              (fetchCodeforcesProgress sampleInfo sampleStatus utcDateString
                 ''2024-01-05T00:00:00.000Z'' ''tourist'') = Some ds
          \<and> timesListed ds (utcDateString (creationTimeSeconds ?a1 * 1000)) ''1700A'' = 1
          \<and> timesListed ds (utcDateString (creationTimeSeconds ?a2 * 1000)) ''1700A'' = 1
          \<and> timesListed ds (utcDateString (creationTimeSeconds ?a3 * 1000)) ''1700A'' = 1)"
    using th sample_requests h1 h2 h3 h4 by simp
  then show ?thesis
    using d by (simp add: t sample_dates sampleSubmissions_def)
qed

lemma fetchCodeforcesProgress_try_success:
  "fetchCodeforcesProgress_try getInfo getStatus f now user = Inr r \<Longrightarrow>
     cfResult.success r \<and> cfResult.error r = None"
  by (auto simp: fetchCodeforcesProgress_try_def Let_def
        split: sum.splits if_splits list.splits)

lemma fetchCodeforcesProgress_failure:
  "fetchCodeforcesProgress_try getInfo getStatus f now user = Inl m \<Longrightarrow>
     fetchCodeforcesProgress getInfo getStatus f now user =
       \<lparr>cfResult.success = False, cfResult.error = Some m, cfResult.username = None,
        cfResult.rating = Label ''Error'', cfResult.maxRating = None,
        cfResult.problemsSolved = 0, cfResult.contests = 0, cfResult.dailySolves = None,
        cfResult.lastUpdated = None\<rparr>"
  by (simp add: fetchCodeforcesProgress_def)

lemma fetchCodeforcesProgress_not_success:
  assumes "\<not> cfResult.success (fetchCodeforcesProgress getInfo getStatus f now user)"
  shows "\<exists>m. fetchCodeforcesProgress_try getInfo getStatus f now user = Inl m"
proof (cases "fetchCodeforcesProgress_try getInfo getStatus f now user")
  case (Inl m)
  then show ?thesis by blast
next
  case (Inr r)
  with assms fetchCodeforcesProgress_try_success [OF Inr] show ?thesis
    by (simp add: fetchCodeforcesProgress_def)
qed

text \<open>
  C10. Whenever the Codeforces fetch does not succeed, its result is the object
  \<open>{success: false, error, rating: 'Error', problemsSolved: 0, contests: 0}\<close>, with
  no \<open>username\<close>, \<open>maxRating\<close>, \<open>dailySolves\<close> or \<open>lastUpdated\<close>; the failures are
  a failed request, an answer whose status is not OK and an empty list of users.
\<close>

theorem codeforces_failure_result:
  "(\<not> cfResult.success (fetchCodeforcesProgress getInfo getStatus f now user) \<longrightarrow>
      (\<exists>m. fetchCodeforcesProgress getInfo getStatus f now user =
         \<lparr>cfResult.success = False, cfResult.error = Some m, cfResult.username = None,
          cfResult.rating = Label ''Error'', cfResult.maxRating = None,
          cfResult.problemsSolved = 0, cfResult.contests = 0, cfResult.dailySolves = None,
          cfResult.lastUpdated = None\<rparr>))
   \<and> (getInfo (codeforcesBaseUrl @ ''/user.info?handles='' @ user) = Inl m \<longrightarrow>
        fetchCodeforcesProgress getInfo getStatus f now user =
         \<lparr>cfResult.success = False, cfResult.error = Some m, cfResult.username = None,
          cfResult.rating = Label ''Error'', cfResult.maxRating = None,
          cfResult.problemsSolved = 0, cfResult.contests = 0, cfResult.dailySolves = None,
          cfResult.lastUpdated = None\<rparr>)
   \<and> (getInfo (codeforcesBaseUrl @ ''/user.info?handles='' @ user) = Inr ui
        \<and> status ui \<noteq> ''OK'' \<longrightarrow>
        fetchCodeforcesProgress getInfo getStatus f now user =
         \<lparr>cfResult.success = False, cfResult.error = Some ''User not found on Codeforces'',
          cfResult.username = None,
          cfResult.rating = Label ''Error'', cfResult.maxRating = None,
          cfResult.problemsSolved = 0, cfResult.contests = 0, cfResult.dailySolves = None,
          cfResult.lastUpdated = None\<rparr>)
   \<and> (getInfo (codeforcesBaseUrl @ ''/user.info?handles='' @ user) = Inr ui
        \<and> status ui = ''OK'' \<and> result ui = [] \<longrightarrow>
        fetchCodeforcesProgress getInfo getStatus f now user =
         \<lparr>cfResult.success = False,
          cfResult.error = Some ''Cannot read properties of undefined (reading 'rating')'',
          cfResult.username = None,
          cfResult.rating = Label ''Error'', cfResult.maxRating = None,
          cfResult.problemsSolved = 0, cfResult.contests = 0, cfResult.dailySolves = None,
          cfResult.lastUpdated = None\<rparr>)
   \<and> (getInfo (codeforcesBaseUrl @ ''/user.info?handles='' @ user) = Inr ui
        \<and> status ui = ''OK'' \<and> result ui \<noteq> []
        \<and> getStatus (codeforcesBaseUrl @ ''/user.status?handle='' @ user
              @ ''&from=1&count=10000'') = Inl m \<longrightarrow>
        fetchCodeforcesProgress getInfo getStatus f now user =
         \<lparr>cfResult.success = False, cfResult.error = Some m, cfResult.username = None,
          cfResult.rating = Label ''Error'', cfResult.maxRating = None,
          cfResult.problemsSolved = 0, cfResult.contests = 0, cfResult.dailySolves = None,
          cfResult.lastUpdated = None\<rparr>)
   \<and> (getInfo (codeforcesBaseUrl @ ''/user.info?handles='' @ user) = Inr ui
        \<and> status ui = ''OK'' \<and> result ui \<noteq> []
        \<and> getStatus (codeforcesBaseUrl @ ''/user.status?handle='' @ user
              @ ''&from=1&count=10000'') = Inr sr
        \<and> status sr \<noteq> ''OK'' \<longrightarrow>
        fetchCodeforcesProgress getInfo getStatus f now user =
         \<lparr>cfResult.success = False, cfResult.error = Some ''Failed to fetch submissions'',
          cfResult.username = None,
          cfResult.rating = Label ''Error'', cfResult.maxRating = None,
          cfResult.problemsSolved = 0, cfResult.contests = 0, cfResult.dailySolves = None,
          cfResult.lastUpdated = None\<rparr>)"
proof (intro conjI impI)
  assume "\<not> cfResult.success (fetchCodeforcesProgress getInfo getStatus f now user)"
  then obtain m' where "fetchCodeforcesProgress_try getInfo getStatus f now user = Inl m'"
    using fetchCodeforcesProgress_not_success by blast
  then show "\<exists>m. fetchCodeforcesProgress getInfo getStatus f now user =
         \<lparr>cfResult.success = False, cfResult.error = Some m, cfResult.username = None,
          cfResult.rating = Label ''Error'', cfResult.maxRating = None,
          cfResult.problemsSolved = 0, cfResult.contests = 0, cfResult.dailySolves = None,
          cfResult.lastUpdated = None\<rparr>"
    using fetchCodeforcesProgress_failure by blast
next
  assume "getInfo (codeforcesBaseUrl @ ''/user.info?handles='' @ user) = Inl m"
  then have "fetchCodeforcesProgress_try getInfo getStatus f now user = Inl m"
    by (simp add: fetchCodeforcesProgress_try_def)
  then show "fetchCodeforcesProgress getInfo getStatus f now user =
         \<lparr>cfResult.success = False, cfResult.error = Some m, cfResult.username = None,
          cfResult.rating = Label ''Error'', cfResult.maxRating = None,
          cfResult.problemsSolved = 0, cfResult.contests = 0, cfResult.dailySolves = None,
          cfResult.lastUpdated = None\<rparr>"
    by (rule fetchCodeforcesProgress_failure)
next
  assume "getInfo (codeforcesBaseUrl @ ''/user.info?handles='' @ user) = Inr ui
        \<and> status ui \<noteq> ''OK''"
  then have "fetchCodeforcesProgress_try getInfo getStatus f now user
      = Inl ''User not found on Codeforces''"
    by (simp add: fetchCodeforcesProgress_try_def)
  then show "fetchCodeforcesProgress getInfo getStatus f now user =
         \<lparr>cfResult.success = False, cfResult.error = Some ''User not found on Codeforces'',
          cfResult.username = None,
          cfResult.rating = Label ''Error'', cfResult.maxRating = None,
          cfResult.problemsSolved = 0, cfResult.contests = 0, cfResult.dailySolves = None,
          cfResult.lastUpdated = None\<rparr>"
    by (rule fetchCodeforcesProgress_failure)
next
  assume "getInfo (codeforcesBaseUrl @ ''/user.info?handles='' @ user) = Inr ui
        \<and> status ui = ''OK'' \<and> result ui = []"
  then have "fetchCodeforcesProgress_try getInfo getStatus f now user
      = Inl ''Cannot read properties of undefined (reading 'rating')''"
    by (simp add: fetchCodeforcesProgress_try_def)
  then show "fetchCodeforcesProgress getInfo getStatus f now user =
         \<lparr>cfResult.success = False,
          cfResult.error = Some ''Cannot read properties of undefined (reading 'rating')'',
          cfResult.username = None,
          cfResult.rating = Label ''Error'', cfResult.maxRating = None,
          cfResult.problemsSolved = 0, cfResult.contests = 0, cfResult.dailySolves = None,
          cfResult.lastUpdated = None\<rparr>"
    by (rule fetchCodeforcesProgress_failure)
next
  assume "getInfo (codeforcesBaseUrl @ ''/user.info?handles='' @ user) = Inr ui
        \<and> status ui = ''OK'' \<and> result ui \<noteq> []
        \<and> getStatus (codeforcesBaseUrl @ ''/user.status?handle='' @ user
              @ ''&from=1&count=10000'') = Inl m"
  then have "fetchCodeforcesProgress_try getInfo getStatus f now user = Inl m"
    by (auto simp: fetchCodeforcesProgress_try_def Let_def split: list.splits)
  then show "fetchCodeforcesProgress getInfo getStatus f now user =
         \<lparr>cfResult.success = False, cfResult.error = Some m, cfResult.username = None,
          cfResult.rating = Label ''Error'', cfResult.maxRating = None,
          cfResult.problemsSolved = 0, cfResult.contests = 0, cfResult.dailySolves = None,
          cfResult.lastUpdated = None\<rparr>"
    by (rule fetchCodeforcesProgress_failure)
next
  assume "getInfo (codeforcesBaseUrl @ ''/user.info?handles='' @ user) = Inr ui
        \<and> status ui = ''OK'' \<and> result ui \<noteq> []
        \<and> getStatus (codeforcesBaseUrl @ ''/user.status?handle='' @ user
              @ ''&from=1&count=10000'') = Inr sr
        \<and> status sr \<noteq> ''OK''"
  then have "fetchCodeforcesProgress_try getInfo getStatus f now user
      = Inl ''Failed to fetch submissions''"
    by (auto simp: fetchCodeforcesProgress_try_def Let_def split: list.splits)
  then show "fetchCodeforcesProgress getInfo getStatus f now user =
         \<lparr>cfResult.success = False, cfResult.error = Some ''Failed to fetch submissions'',
          cfResult.username = None,
          cfResult.rating = Label ''Error'', cfResult.maxRating = None,
          cfResult.problemsSolved = 0, cfResult.contests = 0, cfResult.dailySolves = None,
          cfResult.lastUpdated = None\<rparr>"
    by (rule fetchCodeforcesProgress_failure)
qed

theorem codeforces_failure_result_witness:
  "\<not> cfResult.success
        (fetchCodeforcesProgress (\<lambda>u. Inl ''timeout of 10000ms exceeded'') sampleStatus
           utcDateString ''2024-01-05T00:00:00.000Z'' ''tourist'')
   \<and> fetchCodeforcesProgress (\<lambda>u. Inl ''timeout of 10000ms exceeded'') sampleStatus
         utcDateString ''2024-01-05T00:00:00.000Z'' ''tourist'' =
         \<lparr>cfResult.success = False, cfResult.error = Some ''timeout of 10000ms exceeded'',
          cfResult.username = None,
          cfResult.rating = Label ''Error'', cfResult.maxRating = None,
          cfResult.problemsSolved = 0, cfResult.contests = 0, cfResult.dailySolves = None,
          cfResult.lastUpdated = None\<rparr>
   \<and> fetchCodeforcesProgress (\<lambda>u. Inr \<lparr>status = ''FAILED'', result = []\<rparr>) sampleStatus
         utcDateString ''2024-01-05T00:00:00.000Z'' ''nobody'' =
         \<lparr>cfResult.success = False, cfResult.error = Some ''User not found on Codeforces'',
          cfResult.username = None,
          cfResult.rating = Label ''Error'', cfResult.maxRating = None,
          cfResult.problemsSolved = 0, cfResult.contests = 0, cfResult.dailySolves = None,
          cfResult.lastUpdated = None\<rparr>"
proof -
  let ?g1 = "\<lambda>u::string. (Inl ''timeout of 10000ms exceeded'' :: string + userInfo list apiResponse)"
  let ?g2 = "\<lambda>u::string. (Inr \<lparr>status = ''FAILED'', result = []\<rparr> :: string + userInfo list apiResponse)"
  note a = codeforces_failure_result [where getInfo = ?g1 and getStatus = sampleStatus
      and f = utcDateString and now = "''2024-01-05T00:00:00.000Z''" and user = "''tourist''"
      and m = "''timeout of 10000ms exceeded''"]
  note b = codeforces_failure_result [where getInfo = ?g2 and getStatus = sampleStatus
      and f = utcDateString and now = "''2024-01-05T00:00:00.000Z''" and user = "''nobody''"
      and ui = "\<lparr>status = ''FAILED'', result = []\<rparr>"]
  from a have r1: "fetchCodeforcesProgress ?g1 sampleStatus
         utcDateString ''2024-01-05T00:00:00.000Z'' ''tourist'' =
         \<lparr>cfResult.success = False, cfResult.error = Some ''timeout of 10000ms exceeded'',
          cfResult.username = None,
          cfResult.rating = Label ''Error'', cfResult.maxRating = None,
          cfResult.problemsSolved = 0, cfResult.contests = 0, cfResult.dailySolves = None,
          cfResult.lastUpdated = None\<rparr>" by simp
  from b have r2: "fetchCodeforcesProgress ?g2 sampleStatus
         utcDateString ''2024-01-05T00:00:00.000Z'' ''nobody'' =
         \<lparr>cfResult.success = False, cfResult.error = Some ''User not found on Codeforces'',
          cfResult.username = None,
          cfResult.rating = Label ''Error'', cfResult.maxRating = None,
          cfResult.problemsSolved = 0, cfResult.contests = 0, cfResult.dailySolves = None,
          cfResult.lastUpdated = None\<rparr>" by simp
  from r1 have r0: "\<not> cfResult.success (fetchCodeforcesProgress ?g1 sampleStatus
           utcDateString ''2024-01-05T00:00:00.000Z'' ''tourist'')" by simp
  from r0 r1 r2 show ?thesis by blast
qed

section \<open>The combined sync: results\<close>

lemma foldl_settle:
  "foldl (settle w u) r order =
     \<lparr>syncResults.cses =
        (if CSES \<in> set order
         then Some (fetchCSESProgress (csesGet w) (csesNow w) (nameOf (usernames.cses u)))
         else syncResults.cses r),
      syncResults.codeforces =
        (if Codeforces \<in> set order
         then Some (fetchCodeforcesProgress (cfInfoGet w) (cfStatusGet w) (toDateString w)
                      (cfNow w) (nameOf (usernames.codeforces u)))
         else syncResults.codeforces r),
      syncResults.vjudge =
        (if VJudge \<in> set order
         then Some (fetchVJudgeProgress (vjudgeGet w) (dateOf w) (vjudgeNow w)
                      (nameOf (usernames.vjudge u)))
         else syncResults.vjudge r),
      syncResults.syncTime = syncResults.syncTime r\<rparr>"
proof (induction order arbitrary: r)
  case Nil
  then show ?case by simp
next
  case (Cons p order)
  show ?case
    unfolding foldl_Cons Cons.IH
    by (cases p) (simp_all add: settle_def)
qed

lemma set_promises:
  "set (promises u) =
     (if truthy (usernames.cses u) then {CSES} else {})
     \<union> (if truthy (usernames.codeforces u) then {Codeforces} else {})
     \<union> (if truthy (usernames.vjudge u) then {VJudge} else {})"
  by (simp add: promises_def)

lemma syncAllPlatforms_in_fields:
  "syncAllPlatforms_in order w u =
     \<lparr>syncResults.cses =
        (if CSES \<in> set order
         then Some (fetchCSESProgress (csesGet w) (csesNow w) (nameOf (usernames.cses u)))
         else None),
      syncResults.codeforces =
        (if Codeforces \<in> set order
         then Some (fetchCodeforcesProgress (cfInfoGet w) (cfStatusGet w) (toDateString w)
                      (cfNow w) (nameOf (usernames.codeforces u)))
         else None),
      syncResults.vjudge =
        (if VJudge \<in> set order
         then Some (fetchVJudgeProgress (vjudgeGet w) (dateOf w) (vjudgeNow w)
                      (nameOf (usernames.vjudge u)))
         else None),
      syncResults.syncTime = syncNow w\<rparr>"
  by (simp add: syncAllPlatforms_in_def foldl_settle)

lemma syncAllPlatforms_fields:
  "syncAllPlatforms w u =
     \<lparr>syncResults.cses =
        (if truthy (usernames.cses u)
         then Some (fetchCSESProgress (csesGet w) (csesNow w) (nameOf (usernames.cses u)))
         else None),
      syncResults.codeforces =
        (if truthy (usernames.codeforces u)
         then Some (fetchCodeforcesProgress (cfInfoGet w) (cfStatusGet w) (toDateString w)
                      (cfNow w) (nameOf (usernames.codeforces u)))
         else None),
      syncResults.vjudge =
        (if truthy (usernames.vjudge u)
         then Some (fetchVJudgeProgress (vjudgeGet w) (dateOf w) (vjudgeNow w)
                      (nameOf (usernames.vjudge u)))
         else None),
      syncResults.syncTime = syncNow w\<rparr>"
  by (simp add: syncAllPlatforms_def syncAllPlatforms_in_fields set_promises)

lemma fetchCSESProgress_clock:
  "(fetchCSESProgress g now' u)\<lparr>csesResult.lastUpdated := None\<rparr>
     = (fetchCSESProgress g now u)\<lparr>csesResult.lastUpdated := None\<rparr>"
  by (simp add: fetchCSESProgress_def fetchCSESProgress_try_def Let_def split: sum.splits)

lemma fetchCodeforcesProgress_clock:
  "(fetchCodeforcesProgress gi gs f now' u)\<lparr>cfResult.lastUpdated := None\<rparr>
     = (fetchCodeforcesProgress gi gs f now u)\<lparr>cfResult.lastUpdated := None\<rparr>"
  by (simp add: fetchCodeforcesProgress_def fetchCodeforcesProgress_try_def Let_def
        split: sum.splits list.splits)

lemma fetchVJudgeProgress_clock:
  "(fetchVJudgeProgress g d now' u)\<lparr>vjudgeResult.lastUpdated := None\<rparr>
     = (fetchVJudgeProgress g d now u)\<lparr>vjudgeResult.lastUpdated := None\<rparr>"
  by (simp add: fetchVJudgeProgress_def fetchVJudgeProgress_try_def Let_def split: sum.splits)

text \<open>
  C8 (amended). Two syncs that meet the same answers of the network return the same
  results but for the timestamps \<open>syncTime\<close> and \<open>lastUpdated\<close>, which are read
  from the clock during each call; the same holds for the result of one fetch.
\<close>

theorem sync_repeatable_but_for_timestamps:
  "withoutTimes (syncAllPlatforms
      (w\<lparr>syncNow := t1, csesNow := t2, cfNow := t3, vjudgeNow := t4\<rparr>) us)
     = withoutTimes (syncAllPlatforms w us)
   \<and> (fetchCSESProgress g t2 c)\<lparr>csesResult.lastUpdated := None\<rparr>
       = (fetchCSESProgress g t c)\<lparr>csesResult.lastUpdated := None\<rparr>"
  using fetchCSESProgress_clock [of "csesGet w" t2 _ "csesNow w"]
    fetchCodeforcesProgress_clock [of "cfInfoGet w" "cfStatusGet w" "toDateString w" t3 _ "cfNow w"]
    fetchVJudgeProgress_clock [of "vjudgeGet w" "dateOf w" t4 _ "vjudgeNow w"]
    fetchCSESProgress_clock [of g t2 c t]
  by (simp add: syncAllPlatforms_fields withoutTimes_def)

lemma sample_cses_page:
  "parseSolvedProblems samplePage =
     [\<lparr>solvedProblem.name = ''Weird Algorithm'', id_p = ''1068'', solved_p = True\<rparr>,
      \<lparr>solvedProblem.name = ''Missing Number'', id_p = ''1083'', solved_p = True\<rparr>]"
  by (simp add: samplePage_def trim_def isWhiteSpace_def lastSegment_def)

text \<open>
  Two syncs ten minutes apart that meet the same answers differ in \<open>syncTime\<close> and in
  the \<open>lastUpdated\<close> of the CSES result.
\<close>

theorem sync_repeatable_but_for_timestamps_counterexample:
  "syncResults.syncTime (syncAllPlatforms sampleWorld sampleUsernames)
     \<noteq> syncResults.syncTime (syncAllPlatforms laterWorld sampleUsernames)
   \<and> map_option csesResult.lastUpdated
         (syncResults.cses (syncAllPlatforms sampleWorld sampleUsernames))
       = Some (Some ''2024-01-05T00:00:00.450Z'')
   \<and> map_option csesResult.lastUpdated
         (syncResults.cses (syncAllPlatforms laterWorld sampleUsernames))
       = Some (Some ''2024-01-05T00:10:00.450Z'')
   \<and> csesGet laterWorld = csesGet sampleWorld
   \<and> cfInfoGet laterWorld = cfInfoGet sampleWorld
   \<and> cfStatusGet laterWorld = cfStatusGet sampleWorld
   \<and> vjudgeGet laterWorld = vjudgeGet sampleWorld
   \<and> syncAllPlatforms sampleWorld sampleUsernames
       \<noteq> syncAllPlatforms laterWorld sampleUsernames"
proof -
  have a: "syncResults.syncTime (syncAllPlatforms sampleWorld sampleUsernames)
     \<noteq> syncResults.syncTime (syncAllPlatforms laterWorld sampleUsernames)"
    by (simp add: syncAllPlatforms_fields sampleWorld_def laterWorld_def)
  have b: "map_option csesResult.lastUpdated
         (syncResults.cses (syncAllPlatforms sampleWorld sampleUsernames))
       = Some (Some ''2024-01-05T00:00:00.450Z'')"
    by (simp add: syncAllPlatforms_fields sampleWorld_def sampleUsernames_def truthy_def
          fetchCSESProgress_success)
  have c: "map_option csesResult.lastUpdated
         (syncResults.cses (syncAllPlatforms laterWorld sampleUsernames))
       = Some (Some ''2024-01-05T00:10:00.450Z'')"
    by (simp add: syncAllPlatforms_fields sampleWorld_def laterWorld_def sampleUsernames_def
          truthy_def fetchCSESProgress_success)
  have d: "csesGet laterWorld = csesGet sampleWorld" "cfInfoGet laterWorld = cfInfoGet sampleWorld"
    "cfStatusGet laterWorld = cfStatusGet sampleWorld" "vjudgeGet laterWorld = vjudgeGet sampleWorld"
    by (simp_all add: laterWorld_def)
  from a have "syncAllPlatforms sampleWorld sampleUsernames
       \<noteq> syncAllPlatforms laterWorld sampleUsernames" by auto
  with a b c d show ?thesis by blast
qed

theorem sync_repeatable_but_for_timestamps_witness:
  "withoutTimes (syncAllPlatforms laterWorld sampleUsernames)
     = withoutTimes (syncAllPlatforms sampleWorld sampleUsernames)
   \<and> (fetchCSESProgress (\<lambda>u. Inr samplePage) ''2024-01-05T00:10:00.450Z'' ''alice'')
         \<lparr>csesResult.lastUpdated := None\<rparr>
       = (fetchCSESProgress (\<lambda>u. Inr samplePage) ''2024-01-05T00:00:00.450Z'' ''alice'')
           \<lparr>csesResult.lastUpdated := None\<rparr>"
  using sync_repeatable_but_for_timestamps [where w = sampleWorld
      and ?t1.0 = "''2024-01-05T00:10:00.000Z''" and ?t2.0 = "''2024-01-05T00:10:00.450Z''"
      and ?t3.0 = "''2024-01-05T00:10:01.200Z''" and ?t4.0 = "''2024-01-05T00:10:00.300Z''"
      and us = sampleUsernames and g = "\<lambda>u. Inr samplePage" and c = "''alice''"
      and t = "''2024-01-05T00:00:00.450Z''"]
  by (simp add: laterWorld_def)

lemma fetchCSESProgress_failure:
  "axios_get (csesBaseUrl @ ''/user/'' @ u) = Inl m \<Longrightarrow>
     fetchCSESProgress axios_get now u =
       \<lparr>csesResult.success = False, csesResult.error = Some m, csesResult.totalSolved = 0,
        csesResult.categories = None, csesResult.lastUpdated = None\<rparr>"
  by (simp add: fetchCSESProgress_def fetchCSESProgress_try_def)

lemma fetchVJudgeProgress_failure:
  "axios_get (vjudgeBaseUrl @ ''/'' @ u) = Inl m \<Longrightarrow>
     fetchVJudgeProgress axios_get d now u =
       \<lparr>vjudgeResult.success = False, vjudgeResult.error = Some m,
        vjudgeResult.username = None, vjudgeResult.totalSolved = 0,
        vjudgeResult.totalSubmitted = None, vjudgeResult.dailyActivity = None,
        vjudgeResult.recentSolves = None, vjudgeResult.lastUpdated = None\<rparr>"
  by (simp add: fetchVJudgeProgress_def fetchVJudgeProgress_try_def)

lemma fetchCodeforcesProgress_info_failure:
  "getInfo (codeforcesBaseUrl @ ''/user.info?handles='' @ u) = Inl m \<Longrightarrow>
     fetchCodeforcesProgress getInfo getStatus f now u =
       \<lparr>cfResult.success = False, cfResult.error = Some m, cfResult.username = None,
        cfResult.rating = Label ''Error'', cfResult.maxRating = None,
        cfResult.problemsSolved = 0, cfResult.contests = 0, cfResult.dailySolves = None,
        cfResult.lastUpdated = None\<rparr>"
  by (simp add: fetchCodeforcesProgress_def fetchCodeforcesProgress_try_def)

lemma distinct_order_eq:
  "set order = set (promises us) \<Longrightarrow>
     syncAllPlatforms_in order w us = syncAllPlatforms w us"
  by (simp add: syncAllPlatforms_def syncAllPlatforms_in_fields)

text \<open>
  C4. In whatever order the promises settle, the combined result is the same: each
  requested platform's entry is the result of its own fetch, present when the call
  returns, and it depends on the answers to that platform's requests alone, so a
  failure of one platform changes no other entry.
\<close>

theorem platform_isolation:
  "(distinct order \<and> set order = set (promises us) \<longrightarrow>
      syncAllPlatforms_in order w us = syncAllPlatforms w us)
   \<and> (truthy (usernames.cses us) \<longrightarrow>
        syncResults.cses (syncAllPlatforms w us)
          = Some (fetchCSESProgress (csesGet w) (csesNow w) (nameOf (usernames.cses us))))
   \<and> (truthy (usernames.codeforces us) \<longrightarrow>
        syncResults.codeforces (syncAllPlatforms w us)
          = Some (fetchCodeforcesProgress (cfInfoGet w) (cfStatusGet w) (toDateString w)
                    (cfNow w) (nameOf (usernames.codeforces us))))
   \<and> (truthy (usernames.vjudge us) \<longrightarrow>
        syncResults.vjudge (syncAllPlatforms w us)
          = Some (fetchVJudgeProgress (vjudgeGet w) (dateOf w) (vjudgeNow w)
                    (nameOf (usernames.vjudge us))))
   \<and> (csesGet w' = csesGet w \<and> csesNow w' = csesNow w \<longrightarrow>
        syncResults.cses (syncAllPlatforms w' us) = syncResults.cses (syncAllPlatforms w us))
   \<and> (cfInfoGet w' = cfInfoGet w \<and> cfStatusGet w' = cfStatusGet w
        \<and> toDateString w' = toDateString w \<and> cfNow w' = cfNow w \<longrightarrow>
        syncResults.codeforces (syncAllPlatforms w' us)
          = syncResults.codeforces (syncAllPlatforms w us))
   \<and> (vjudgeGet w' = vjudgeGet w \<and> dateOf w' = dateOf w \<and> vjudgeNow w' = vjudgeNow w \<longrightarrow>
        syncResults.vjudge (syncAllPlatforms w' us) = syncResults.vjudge (syncAllPlatforms w us))"
proof -
  have order: "distinct order \<and> set order = set (promises us) \<longrightarrow>
      syncAllPlatforms_in order w us = syncAllPlatforms w us"
    by (simp add: distinct_order_eq)
  have entries: "syncResults.cses (syncAllPlatforms x us)
        = (if truthy (usernames.cses us)
           then Some (fetchCSESProgress (csesGet x) (csesNow x) (nameOf (usernames.cses us)))
           else None)"
    "syncResults.codeforces (syncAllPlatforms x us)
        = (if truthy (usernames.codeforces us)
           then Some (fetchCodeforcesProgress (cfInfoGet x) (cfStatusGet x) (toDateString x)
                        (cfNow x) (nameOf (usernames.codeforces us)))
           else None)"
    "syncResults.vjudge (syncAllPlatforms x us)
        = (if truthy (usernames.vjudge us)
           then Some (fetchVJudgeProgress (vjudgeGet x) (dateOf x) (vjudgeNow x)
                        (nameOf (usernames.vjudge us)))
           else None)" for x
    by (simp_all add: syncAllPlatforms_fields)
  from order show ?thesis
    by (simp add: entries)
qed

lemma sample_solved:
  "length (fst (foldl (recordSolve utcDateString) ([], []) sampleSubmissions)) = 2"
  by (simp add: sampleSubmissions_def mkSubmission_def recordSolve_def Let_def sample_dates
        problemKeyOf_def interpolate_def showInt_1700 setAdd_def)

lemma sample_codeforces:
  "cfResult.success (fetchCodeforcesProgress sampleInfo sampleStatus utcDateString
      now ''tourist'')"
  "cfResult.problemsSolved (fetchCodeforcesProgress sampleInfo sampleStatus utcDateString
      now ''tourist'') = 2"
  using fetchCodeforcesProgress_success
            [where getInfo = sampleInfo and getStatus = sampleStatus and user = "''tourist''"
               and f = utcDateString and now = now,
             OF sample_requests(1) _ _ sample_requests(2)] sample_solved
  by simp_all

theorem platform_isolation_witness:
  "syncAllPlatforms_in [VJudge, Codeforces, CSES] csesDownWorld sampleUsernames
     = syncAllPlatforms csesDownWorld sampleUsernames
   \<and> promises sampleUsernames = [CSES, Codeforces, VJudge]
   \<and> syncResults.codeforces (syncAllPlatforms csesDownWorld sampleUsernames)
       = syncResults.codeforces (syncAllPlatforms sampleWorld sampleUsernames)
   \<and> map_option csesResult.success
         (syncResults.cses (syncAllPlatforms sampleWorld sampleUsernames)) = Some True
   \<and> map_option csesResult.success
         (syncResults.cses (syncAllPlatforms csesDownWorld sampleUsernames)) = Some False
   \<and> map_option cfResult.success
         (syncResults.codeforces (syncAllPlatforms csesDownWorld sampleUsernames)) = Some True
   \<and> map_option cfResult.problemsSolved
         (syncResults.codeforces (syncAllPlatforms csesDownWorld sampleUsernames)) = Some 2
   \<and> map_option vjudgeResult.success
         (syncResults.vjudge (syncAllPlatforms csesDownWorld sampleUsernames)) = Some False"
proof -
  have pr: "promises sampleUsernames = [CSES, Codeforces, VJudge]"
    by (simp add: promises_def sampleUsernames_def truthy_def)
  have tr: "truthy (usernames.cses sampleUsernames)" "truthy (usernames.codeforces sampleUsernames)"
    "truthy (usernames.vjudge sampleUsernames)"
    by (simp_all add: sampleUsernames_def truthy_def)
  have nm: "nameOf (usernames.cses sampleUsernames) = ''alice''"
    "nameOf (usernames.codeforces sampleUsernames) = ''tourist''"
    "nameOf (usernames.vjudge sampleUsernames) = ''bob''"
    by (simp_all add: sampleUsernames_def nameOf_def)
  note th = platform_isolation [where order = "[VJudge, Codeforces, CSES]"
      and us = sampleUsernames and w = csesDownWorld and w' = sampleWorld]
  note th2 = platform_isolation [where order = "[VJudge, Codeforces, CSES]"
      and us = sampleUsernames and w = sampleWorld and w' = csesDownWorld]
  have a: "syncAllPlatforms_in [VJudge, Codeforces, CSES] csesDownWorld sampleUsernames
     = syncAllPlatforms csesDownWorld sampleUsernames"
    using th pr by auto
  have b: "syncResults.codeforces (syncAllPlatforms csesDownWorld sampleUsernames)
       = syncResults.codeforces (syncAllPlatforms sampleWorld sampleUsernames)"
    using th2 by (simp add: csesDownWorld_def)
  have c: "syncResults.cses (syncAllPlatforms sampleWorld sampleUsernames)
      = Some (fetchCSESProgress (csesGet sampleWorld) (csesNow sampleWorld) ''alice'')"
    using th2 tr nm by simp
  have c': "syncResults.cses (syncAllPlatforms csesDownWorld sampleUsernames)
      = Some (fetchCSESProgress (csesGet csesDownWorld) (csesNow csesDownWorld) ''alice'')"
    using th tr nm by simp
  have d: "syncResults.codeforces (syncAllPlatforms csesDownWorld sampleUsernames)
      = Some (fetchCodeforcesProgress (cfInfoGet csesDownWorld) (cfStatusGet csesDownWorld)
                (toDateString csesDownWorld) (cfNow csesDownWorld) ''tourist'')"
    using th tr nm by simp
  have e: "syncResults.vjudge (syncAllPlatforms csesDownWorld sampleUsernames)
      = Some (fetchVJudgeProgress (vjudgeGet csesDownWorld) (dateOf csesDownWorld)
                (vjudgeNow csesDownWorld) ''bob'')"
    using th tr nm by simp
  have r1: "map_option csesResult.success
         (syncResults.cses (syncAllPlatforms sampleWorld sampleUsernames)) = Some True"
    unfolding c by (simp add: sampleWorld_def fetchCSESProgress_success)
  have r2: "map_option csesResult.success
         (syncResults.cses (syncAllPlatforms csesDownWorld sampleUsernames)) = Some False"
    unfolding c' by (simp add: csesDownWorld_def fetchCSESProgress_failure)
  have r3: "map_option cfResult.success
         (syncResults.codeforces (syncAllPlatforms csesDownWorld sampleUsernames)) = Some True"
    "map_option cfResult.problemsSolved
         (syncResults.codeforces (syncAllPlatforms csesDownWorld sampleUsernames)) = Some 2"
    unfolding d by (simp_all add: csesDownWorld_def sampleWorld_def sample_codeforces)
  have r4: "map_option vjudgeResult.success
         (syncResults.vjudge (syncAllPlatforms csesDownWorld sampleUsernames)) = Some False"
    unfolding e by (simp add: csesDownWorld_def sampleWorld_def fetchVJudgeProgress_failure)
  from a pr b r1 r2 r3 r4 show ?thesis by blast
qed

lemma fetchVJudgeProgress_second_failure:
  "axios_get (vjudgeBaseUrl @ ''/'' @ u) = Inr page \<Longrightarrow>
   axios_get (vjudgeBaseUrl @ ''/'' @ u @ ''/submissions'') = Inl m \<Longrightarrow>
     fetchVJudgeProgress axios_get d now u =
       \<lparr>vjudgeResult.success = False, vjudgeResult.error = Some m,
        vjudgeResult.username = None, vjudgeResult.totalSolved = 0,
        vjudgeResult.totalSubmitted = None, vjudgeResult.dailyActivity = None,
        vjudgeResult.recentSolves = None, vjudgeResult.lastUpdated = None\<rparr>"
  by (simp add: fetchVJudgeProgress_def fetchVJudgeProgress_try_def Let_def)

lemma fetchVJudgeProgress_success:
  "axios_get (vjudgeBaseUrl @ ''/'' @ u) = Inr page \<Longrightarrow>
   axios_get (vjudgeBaseUrl @ ''/'' @ u @ ''/submissions'') = Inr subs \<Longrightarrow>
     fetchVJudgeProgress axios_get d now u =
       \<lparr>vjudgeResult.success = True, vjudgeResult.error = None,
        vjudgeResult.username = Some u,
        vjudgeResult.totalSolved = parseIntOrZero (trim (solvedText page)),
        vjudgeResult.totalSubmitted = Some (parseIntOrZero (trim (submittedText page))),
        vjudgeResult.dailyActivity = Some (foldl recordActivity [] (activityCells page)),
        vjudgeResult.recentSolves = Some (foldl (recordRecent d) [] (submissionRows subs)),
        vjudgeResult.lastUpdated = Some now\<rparr>"
  by (simp add: fetchVJudgeProgress_def fetchVJudgeProgress_try_def Let_def)

lemma fetchVJudgeProgress_shape:
  "vjudgeResult.success (fetchVJudgeProgress gv d now v)
   \<or> (\<exists>e. fetchVJudgeProgress gv d now v =
         \<lparr>vjudgeResult.success = False, vjudgeResult.error = Some e,
          vjudgeResult.username = None, vjudgeResult.totalSolved = 0,
          vjudgeResult.totalSubmitted = None, vjudgeResult.dailyActivity = None,
          vjudgeResult.recentSolves = None, vjudgeResult.lastUpdated = None\<rparr>)"
proof (cases "gv (vjudgeBaseUrl @ ''/'' @ v)")
  case (Inl m)
  then show ?thesis by (simp add: fetchVJudgeProgress_failure)
next
  case first: (Inr page)
  show ?thesis
  proof (cases "gv (vjudgeBaseUrl @ ''/'' @ v @ ''/submissions'')")
    case (Inl m)
    with first show ?thesis by (simp add: fetchVJudgeProgress_second_failure)
  next
    case (Inr subs)
    with first show ?thesis by (simp add: fetchVJudgeProgress_success)
  qed
qed

text \<open>
  C5. Each fetch returns a result object whatever the network answers. The CSES fetch
  returns its failure object when its request fails and its success object otherwise;
  the Codeforces fetch returns its failure object at each of its five throw sites and
  its success object otherwise; the VJudge fetch returns its failure object when its
  first or its second request fails and its success object otherwise. So every result
  has success true or is the failure object with a message and the zero fields. The
  sync returns, for every set of usernames, an entry for each requested platform and
  \<open>null\<close> for the others, and the entry of a platform whose request fails is its
  failure object, whatever the other platforms do.
\<close>

theorem fetches_always_resolve:
  "(g (csesBaseUrl @ ''/user/'' @ c) = Inl m \<longrightarrow>
      fetchCSESProgress g now c =
        \<lparr>csesResult.success = False, csesResult.error = Some m,
           csesResult.totalSolved = 0, csesResult.categories = None,
           csesResult.lastUpdated = None\<rparr>)
   \<and> (g (csesBaseUrl @ ''/user/'' @ c) = Inr cells \<longrightarrow>
      fetchCSESProgress g now c =
        \<lparr>csesResult.success = True, csesResult.error = None,
         csesResult.totalSolved = length (parseSolvedProblems cells),
         csesResult.categories = Some (categorizeAll (parseSolvedProblems cells)),
         csesResult.lastUpdated = Some now\<rparr>)
   \<and> (gi (codeforcesBaseUrl @ ''/user.info?handles='' @ k) = Inl m \<longrightarrow>
      fetchCodeforcesProgress gi gs f now k =
        \<lparr>cfResult.success = False, cfResult.error = Some m,
           cfResult.username = None, cfResult.rating = Label ''Error'',
           cfResult.maxRating = None, cfResult.problemsSolved = 0, cfResult.contests = 0,
           cfResult.dailySolves = None, cfResult.lastUpdated = None\<rparr>)
   \<and> (gi (codeforcesBaseUrl @ ''/user.info?handles='' @ k) = Inr ui \<and> status ui \<noteq> ''OK'' \<longrightarrow>
      fetchCodeforcesProgress gi gs f now k =
        \<lparr>cfResult.success = False, cfResult.error = Some ''User not found on Codeforces'',
           cfResult.username = None, cfResult.rating = Label ''Error'',
           cfResult.maxRating = None, cfResult.problemsSolved = 0, cfResult.contests = 0,
           cfResult.dailySolves = None, cfResult.lastUpdated = None\<rparr>)
   \<and> (gi (codeforcesBaseUrl @ ''/user.info?handles='' @ k) = Inr ui \<and> status ui = ''OK''
      \<and> result ui = [] \<longrightarrow>
      fetchCodeforcesProgress gi gs f now k =
        \<lparr>cfResult.success = False, cfResult.error = Some ''Cannot read properties of undefined (reading 'rating')'',
           cfResult.username = None, cfResult.rating = Label ''Error'',
           cfResult.maxRating = None, cfResult.problemsSolved = 0, cfResult.contests = 0,
           cfResult.dailySolves = None, cfResult.lastUpdated = None\<rparr>)
   \<and> (gi (codeforcesBaseUrl @ ''/user.info?handles='' @ k) = Inr ui \<and> status ui = ''OK''
      \<and> result ui \<noteq> []
      \<and> gs (codeforcesBaseUrl @ ''/user.status?handle='' @ k
          @ ''&from=1&count=10000'') = Inl m \<longrightarrow>
      fetchCodeforcesProgress gi gs f now k =
        \<lparr>cfResult.success = False, cfResult.error = Some m,
           cfResult.username = None, cfResult.rating = Label ''Error'',
           cfResult.maxRating = None, cfResult.problemsSolved = 0, cfResult.contests = 0,
           cfResult.dailySolves = None, cfResult.lastUpdated = None\<rparr>)
   \<and> (gi (codeforcesBaseUrl @ ''/user.info?handles='' @ k) = Inr ui \<and> status ui = ''OK''
      \<and> result ui \<noteq> []
      \<and> gs (codeforcesBaseUrl @ ''/user.status?handle='' @ k
          @ ''&from=1&count=10000'') = Inr sr \<and> status sr \<noteq> ''OK'' \<longrightarrow>
      fetchCodeforcesProgress gi gs f now k =
        \<lparr>cfResult.success = False, cfResult.error = Some ''Failed to fetch submissions'',
           cfResult.username = None, cfResult.rating = Label ''Error'',
           cfResult.maxRating = None, cfResult.problemsSolved = 0, cfResult.contests = 0,
           cfResult.dailySolves = None, cfResult.lastUpdated = None\<rparr>)
   \<and> (gi (codeforcesBaseUrl @ ''/user.info?handles='' @ k) = Inr ui \<and> status ui = ''OK''
      \<and> result ui = info # rest
      \<and> gs (codeforcesBaseUrl @ ''/user.status?handle='' @ k
          @ ''&from=1&count=10000'') = Inr sr \<and> status sr = ''OK'' \<longrightarrow>
      fetchCodeforcesProgress gi gs f now k =
        \<lparr>cfResult.success = True, cfResult.error = None, cfResult.username = Some k,
         cfResult.rating = orElse (userInfo.rating info) (Label ''Unrated''),
         cfResult.maxRating = Some (orElse (userInfo.maxRating info)
                                      (orElse (userInfo.rating info) (Label ''Unrated''))),
         cfResult.problemsSolved = length (fst (foldl (recordSolve f) ([], []) (result sr))),
         cfResult.contests = length (foldl recordContest [] (result sr)),
         cfResult.dailySolves = Some (snd (foldl (recordSolve f) ([], []) (result sr))),
         cfResult.lastUpdated = Some now\<rparr>)
   \<and> (gv (vjudgeBaseUrl @ ''/'' @ v) = Inl m \<longrightarrow>
      fetchVJudgeProgress gv d now v =
        \<lparr>vjudgeResult.success = False, vjudgeResult.error = Some m,
           vjudgeResult.username = None, vjudgeResult.totalSolved = 0,
           vjudgeResult.totalSubmitted = None, vjudgeResult.dailyActivity = None,
           vjudgeResult.recentSolves = None, vjudgeResult.lastUpdated = None\<rparr>)
   \<and> (gv (vjudgeBaseUrl @ ''/'' @ v) = Inr page
      \<and> gv (vjudgeBaseUrl @ ''/'' @ v @ ''/submissions'') = Inl m \<longrightarrow>
      fetchVJudgeProgress gv d now v =
        \<lparr>vjudgeResult.success = False, vjudgeResult.error = Some m,
           vjudgeResult.username = None, vjudgeResult.totalSolved = 0,
           vjudgeResult.totalSubmitted = None, vjudgeResult.dailyActivity = None,
           vjudgeResult.recentSolves = None, vjudgeResult.lastUpdated = None\<rparr>)
   \<and> (gv (vjudgeBaseUrl @ ''/'' @ v) = Inr page
      \<and> gv (vjudgeBaseUrl @ ''/'' @ v @ ''/submissions'') = Inr subs \<longrightarrow>
      fetchVJudgeProgress gv d now v =
        \<lparr>vjudgeResult.success = True, vjudgeResult.error = None,
         vjudgeResult.username = Some v,
         vjudgeResult.totalSolved = parseIntOrZero (trim (solvedText page)),
         vjudgeResult.totalSubmitted = Some (parseIntOrZero (trim (submittedText page))),
         vjudgeResult.dailyActivity = Some (foldl recordActivity [] (activityCells page)),
         vjudgeResult.recentSolves = Some (foldl (recordRecent d) [] (submissionRows subs)),
         vjudgeResult.lastUpdated = Some now\<rparr>)
   \<and> (csesResult.success (fetchCSESProgress g now c)
      \<or> (\<exists>e. fetchCSESProgress g now c =
            \<lparr>csesResult.success = False, csesResult.error = Some e,
           csesResult.totalSolved = 0, csesResult.categories = None,
           csesResult.lastUpdated = None\<rparr>))
   \<and> (cfResult.success (fetchCodeforcesProgress gi gs f now k)
      \<or> (\<exists>e. fetchCodeforcesProgress gi gs f now k =
            \<lparr>cfResult.success = False, cfResult.error = Some e,
           cfResult.username = None, cfResult.rating = Label ''Error'',
           cfResult.maxRating = None, cfResult.problemsSolved = 0, cfResult.contests = 0,
           cfResult.dailySolves = None, cfResult.lastUpdated = None\<rparr>))
   \<and> (vjudgeResult.success (fetchVJudgeProgress gv d now v)
      \<or> (\<exists>e. fetchVJudgeProgress gv d now v =
            \<lparr>vjudgeResult.success = False, vjudgeResult.error = Some e,
           vjudgeResult.username = None, vjudgeResult.totalSolved = 0,
           vjudgeResult.totalSubmitted = None, vjudgeResult.dailyActivity = None,
           vjudgeResult.recentSolves = None, vjudgeResult.lastUpdated = None\<rparr>))
   \<and> (syncAllPlatforms w us =
        \<lparr>syncResults.cses =
           (if truthy (usernames.cses us)
            then Some (fetchCSESProgress (csesGet w) (csesNow w) (nameOf (usernames.cses us)))
            else None),
         syncResults.codeforces =
           (if truthy (usernames.codeforces us)
            then Some (fetchCodeforcesProgress (cfInfoGet w) (cfStatusGet w) (toDateString w)
                         (cfNow w) (nameOf (usernames.codeforces us)))
            else None),
         syncResults.vjudge =
           (if truthy (usernames.vjudge us)
            then Some (fetchVJudgeProgress (vjudgeGet w) (dateOf w) (vjudgeNow w)
                         (nameOf (usernames.vjudge us)))
            else None),
         syncResults.syncTime = syncNow w\<rparr>)
   \<and> (truthy (usernames.cses us)
      \<and> csesGet w (csesBaseUrl @ ''/user/'' @ nameOf (usernames.cses us)) = Inl m \<longrightarrow>
      syncResults.cses (syncAllPlatforms w us) = Some
        \<lparr>csesResult.success = False, csesResult.error = Some m,
           csesResult.totalSolved = 0, csesResult.categories = None,
           csesResult.lastUpdated = None\<rparr>)
   \<and> (truthy (usernames.codeforces us)
      \<and> cfInfoGet w (codeforcesBaseUrl @ ''/user.info?handles='' @ nameOf (usernames.codeforces us))
          = Inl m \<longrightarrow>
      syncResults.codeforces (syncAllPlatforms w us) = Some
        \<lparr>cfResult.success = False, cfResult.error = Some m,
           cfResult.username = None, cfResult.rating = Label ''Error'',
           cfResult.maxRating = None, cfResult.problemsSolved = 0, cfResult.contests = 0,
           cfResult.dailySolves = None, cfResult.lastUpdated = None\<rparr>)
   \<and> (truthy (usernames.vjudge us)
      \<and> vjudgeGet w (vjudgeBaseUrl @ ''/'' @ nameOf (usernames.vjudge us)) = Inl m \<longrightarrow>
      syncResults.vjudge (syncAllPlatforms w us) = Some
        \<lparr>vjudgeResult.success = False, vjudgeResult.error = Some m,
           vjudgeResult.username = None, vjudgeResult.totalSolved = 0,
           vjudgeResult.totalSubmitted = None, vjudgeResult.dailyActivity = None,
           vjudgeResult.recentSolves = None, vjudgeResult.lastUpdated = None\<rparr>)
   \<and> (truthy (usernames.vjudge us)
      \<and> vjudgeGet w (vjudgeBaseUrl @ ''/'' @ nameOf (usernames.vjudge us)) = Inr page
      \<and> vjudgeGet w (vjudgeBaseUrl @ ''/'' @ nameOf (usernames.vjudge us) @ ''/submissions'')
          = Inl m \<longrightarrow>
      syncResults.vjudge (syncAllPlatforms w us) = Some
        \<lparr>vjudgeResult.success = False, vjudgeResult.error = Some m,
           vjudgeResult.username = None, vjudgeResult.totalSolved = 0,
           vjudgeResult.totalSubmitted = None, vjudgeResult.dailyActivity = None,
           vjudgeResult.recentSolves = None, vjudgeResult.lastUpdated = None\<rparr>)"
proof -
  have cs_fail: "g (csesBaseUrl @ ''/user/'' @ c) = Inl m \<longrightarrow>
      fetchCSESProgress g now c =
        \<lparr>csesResult.success = False, csesResult.error = Some m,
           csesResult.totalSolved = 0, csesResult.categories = None,
           csesResult.lastUpdated = None\<rparr>"
    by (simp add: fetchCSESProgress_failure)
  have cs_ok: "g (csesBaseUrl @ ''/user/'' @ c) = Inr cells \<longrightarrow>
      fetchCSESProgress g now c =
        \<lparr>csesResult.success = True, csesResult.error = None,
         csesResult.totalSolved = length (parseSolvedProblems cells),
         csesResult.categories = Some (categorizeAll (parseSolvedProblems cells)),
         csesResult.lastUpdated = Some now\<rparr>"
    by (simp add: fetchCSESProgress_success)
  have cf_info: "gi (codeforcesBaseUrl @ ''/user.info?handles='' @ k) = Inl m \<longrightarrow>
      fetchCodeforcesProgress gi gs f now k =
        \<lparr>cfResult.success = False, cfResult.error = Some m,
           cfResult.username = None, cfResult.rating = Label ''Error'',
           cfResult.maxRating = None, cfResult.problemsSolved = 0, cfResult.contests = 0,
           cfResult.dailySolves = None, cfResult.lastUpdated = None\<rparr>"
    by (simp add: fetchCodeforcesProgress_info_failure)
  have cf_notfound: "gi (codeforcesBaseUrl @ ''/user.info?handles='' @ k) = Inr ui \<and> status ui \<noteq> ''OK'' \<longrightarrow>
      fetchCodeforcesProgress gi gs f now k =
        \<lparr>cfResult.success = False, cfResult.error = Some ''User not found on Codeforces'',
           cfResult.username = None, cfResult.rating = Label ''Error'',
           cfResult.maxRating = None, cfResult.problemsSolved = 0, cfResult.contests = 0,
           cfResult.dailySolves = None, cfResult.lastUpdated = None\<rparr>"
    by (auto simp: fetchCodeforcesProgress_try_def intro!: fetchCodeforcesProgress_failure)
  have cf_empty: "gi (codeforcesBaseUrl @ ''/user.info?handles='' @ k) = Inr ui \<and> status ui = ''OK''
      \<and> result ui = [] \<longrightarrow>
      fetchCodeforcesProgress gi gs f now k =
        \<lparr>cfResult.success = False, cfResult.error = Some ''Cannot read properties of undefined (reading 'rating')'',
           cfResult.username = None, cfResult.rating = Label ''Error'',
           cfResult.maxRating = None, cfResult.problemsSolved = 0, cfResult.contests = 0,
           cfResult.dailySolves = None, cfResult.lastUpdated = None\<rparr>"
    by (auto simp: fetchCodeforcesProgress_try_def intro!: fetchCodeforcesProgress_failure)
  have cf_status: "gi (codeforcesBaseUrl @ ''/user.info?handles='' @ k) = Inr ui \<and> status ui = ''OK''
      \<and> result ui \<noteq> []
      \<and> gs (codeforcesBaseUrl @ ''/user.status?handle='' @ k
          @ ''&from=1&count=10000'') = Inl m \<longrightarrow>
      fetchCodeforcesProgress gi gs f now k =
        \<lparr>cfResult.success = False, cfResult.error = Some m,
           cfResult.username = None, cfResult.rating = Label ''Error'',
           cfResult.maxRating = None, cfResult.problemsSolved = 0, cfResult.contests = 0,
           cfResult.dailySolves = None, cfResult.lastUpdated = None\<rparr>"
    by (auto simp: fetchCodeforcesProgress_try_def Let_def split: list.splits
        intro!: fetchCodeforcesProgress_failure)
  have cf_statusfailed: "gi (codeforcesBaseUrl @ ''/user.info?handles='' @ k) = Inr ui \<and> status ui = ''OK''
      \<and> result ui \<noteq> []
      \<and> gs (codeforcesBaseUrl @ ''/user.status?handle='' @ k
          @ ''&from=1&count=10000'') = Inr sr \<and> status sr \<noteq> ''OK'' \<longrightarrow>
      fetchCodeforcesProgress gi gs f now k =
        \<lparr>cfResult.success = False, cfResult.error = Some ''Failed to fetch submissions'',
           cfResult.username = None, cfResult.rating = Label ''Error'',
           cfResult.maxRating = None, cfResult.problemsSolved = 0, cfResult.contests = 0,
           cfResult.dailySolves = None, cfResult.lastUpdated = None\<rparr>"
    by (auto simp: fetchCodeforcesProgress_try_def Let_def split: list.splits
        intro!: fetchCodeforcesProgress_failure)
  have cf_ok: "gi (codeforcesBaseUrl @ ''/user.info?handles='' @ k) = Inr ui \<and> status ui = ''OK''
      \<and> result ui = info # rest
      \<and> gs (codeforcesBaseUrl @ ''/user.status?handle='' @ k
          @ ''&from=1&count=10000'') = Inr sr \<and> status sr = ''OK'' \<longrightarrow>
      fetchCodeforcesProgress gi gs f now k =
        \<lparr>cfResult.success = True, cfResult.error = None, cfResult.username = Some k,
         cfResult.rating = orElse (userInfo.rating info) (Label ''Unrated''),
         cfResult.maxRating = Some (orElse (userInfo.maxRating info)
                                      (orElse (userInfo.rating info) (Label ''Unrated''))),
         cfResult.problemsSolved = length (fst (foldl (recordSolve f) ([], []) (result sr))),
         cfResult.contests = length (foldl recordContest [] (result sr)),
         cfResult.dailySolves = Some (snd (foldl (recordSolve f) ([], []) (result sr))),
         cfResult.lastUpdated = Some now\<rparr>"
    using fetchCodeforcesProgress_success [where getInfo = gi and getStatus = gs and user = k
        and ui = ui and sr = sr and info = info and rest = rest and f = f and now = now]
    by blast
  have vj_first: "gv (vjudgeBaseUrl @ ''/'' @ v) = Inl m \<longrightarrow>
      fetchVJudgeProgress gv d now v =
        \<lparr>vjudgeResult.success = False, vjudgeResult.error = Some m,
           vjudgeResult.username = None, vjudgeResult.totalSolved = 0,
           vjudgeResult.totalSubmitted = None, vjudgeResult.dailyActivity = None,
           vjudgeResult.recentSolves = None, vjudgeResult.lastUpdated = None\<rparr>"
    by (simp add: fetchVJudgeProgress_failure)
  have vj_second: "gv (vjudgeBaseUrl @ ''/'' @ v) = Inr page
      \<and> gv (vjudgeBaseUrl @ ''/'' @ v @ ''/submissions'') = Inl m \<longrightarrow>
      fetchVJudgeProgress gv d now v =
        \<lparr>vjudgeResult.success = False, vjudgeResult.error = Some m,
           vjudgeResult.username = None, vjudgeResult.totalSolved = 0,
           vjudgeResult.totalSubmitted = None, vjudgeResult.dailyActivity = None,
           vjudgeResult.recentSolves = None, vjudgeResult.lastUpdated = None\<rparr>"
    by (simp add: fetchVJudgeProgress_second_failure)
  have vj_ok: "gv (vjudgeBaseUrl @ ''/'' @ v) = Inr page
      \<and> gv (vjudgeBaseUrl @ ''/'' @ v @ ''/submissions'') = Inr subs \<longrightarrow>
      fetchVJudgeProgress gv d now v =
        \<lparr>vjudgeResult.success = True, vjudgeResult.error = None,
         vjudgeResult.username = Some v,
         vjudgeResult.totalSolved = parseIntOrZero (trim (solvedText page)),
         vjudgeResult.totalSubmitted = Some (parseIntOrZero (trim (submittedText page))),
         vjudgeResult.dailyActivity = Some (foldl recordActivity [] (activityCells page)),
         vjudgeResult.recentSolves = Some (foldl (recordRecent d) [] (submissionRows subs)),
         vjudgeResult.lastUpdated = Some now\<rparr>"
    by (simp add: fetchVJudgeProgress_success)
  have cs_shape: "csesResult.success (fetchCSESProgress g now c)
      \<or> (\<exists>e. fetchCSESProgress g now c =
            \<lparr>csesResult.success = False, csesResult.error = Some e,
           csesResult.totalSolved = 0, csesResult.categories = None,
           csesResult.lastUpdated = None\<rparr>)"
    by (cases "g (csesBaseUrl @ ''/user/'' @ c)")
      (simp_all add: fetchCSESProgress_failure fetchCSESProgress_success)
  have cf_shape: "cfResult.success (fetchCodeforcesProgress gi gs f now k)
      \<or> (\<exists>e. fetchCodeforcesProgress gi gs f now k =
            \<lparr>cfResult.success = False, cfResult.error = Some e,
           cfResult.username = None, cfResult.rating = Label ''Error'',
           cfResult.maxRating = None, cfResult.problemsSolved = 0, cfResult.contests = 0,
           cfResult.dailySolves = None, cfResult.lastUpdated = None\<rparr>)"
    using fetchCodeforcesProgress_not_success [of gi gs f now k]
      fetchCodeforcesProgress_failure [of gi gs f now k]
    by blast
  have vj_shape: "vjudgeResult.success (fetchVJudgeProgress gv d now v)
      \<or> (\<exists>e. fetchVJudgeProgress gv d now v =
            \<lparr>vjudgeResult.success = False, vjudgeResult.error = Some e,
           vjudgeResult.username = None, vjudgeResult.totalSolved = 0,
           vjudgeResult.totalSubmitted = None, vjudgeResult.dailyActivity = None,
           vjudgeResult.recentSolves = None, vjudgeResult.lastUpdated = None\<rparr>)"
    using fetchVJudgeProgress_shape [of gv d now v] by blast
  have sy_all: "syncAllPlatforms w us =
        \<lparr>syncResults.cses =
           (if truthy (usernames.cses us)
            then Some (fetchCSESProgress (csesGet w) (csesNow w) (nameOf (usernames.cses us)))
            else None),
         syncResults.codeforces =
           (if truthy (usernames.codeforces us)
            then Some (fetchCodeforcesProgress (cfInfoGet w) (cfStatusGet w) (toDateString w)
                         (cfNow w) (nameOf (usernames.codeforces us)))
            else None),
         syncResults.vjudge =
           (if truthy (usernames.vjudge us)
            then Some (fetchVJudgeProgress (vjudgeGet w) (dateOf w) (vjudgeNow w)
                         (nameOf (usernames.vjudge us)))
            else None),
         syncResults.syncTime = syncNow w\<rparr>"
    by (rule syncAllPlatforms_fields)
  have sy_cses: "truthy (usernames.cses us)
      \<and> csesGet w (csesBaseUrl @ ''/user/'' @ nameOf (usernames.cses us)) = Inl m \<longrightarrow>
      syncResults.cses (syncAllPlatforms w us) = Some
        \<lparr>csesResult.success = False, csesResult.error = Some m,
           csesResult.totalSolved = 0, csesResult.categories = None,
           csesResult.lastUpdated = None\<rparr>"
    by (simp add: syncAllPlatforms_fields fetchCSESProgress_failure)
  have sy_cf: "truthy (usernames.codeforces us)
      \<and> cfInfoGet w (codeforcesBaseUrl @ ''/user.info?handles='' @ nameOf (usernames.codeforces us))
          = Inl m \<longrightarrow>
      syncResults.codeforces (syncAllPlatforms w us) = Some
        \<lparr>cfResult.success = False, cfResult.error = Some m,
           cfResult.username = None, cfResult.rating = Label ''Error'',
           cfResult.maxRating = None, cfResult.problemsSolved = 0, cfResult.contests = 0,
           cfResult.dailySolves = None, cfResult.lastUpdated = None\<rparr>"
    by (simp add: syncAllPlatforms_fields fetchCodeforcesProgress_info_failure)
  have sy_vj1: "truthy (usernames.vjudge us)
      \<and> vjudgeGet w (vjudgeBaseUrl @ ''/'' @ nameOf (usernames.vjudge us)) = Inl m \<longrightarrow>
      syncResults.vjudge (syncAllPlatforms w us) = Some
        \<lparr>vjudgeResult.success = False, vjudgeResult.error = Some m,
           vjudgeResult.username = None, vjudgeResult.totalSolved = 0,
           vjudgeResult.totalSubmitted = None, vjudgeResult.dailyActivity = None,
           vjudgeResult.recentSolves = None, vjudgeResult.lastUpdated = None\<rparr>"
    by (simp add: syncAllPlatforms_fields fetchVJudgeProgress_failure)
  have sy_vj2: "truthy (usernames.vjudge us)
      \<and> vjudgeGet w (vjudgeBaseUrl @ ''/'' @ nameOf (usernames.vjudge us)) = Inr page
      \<and> vjudgeGet w (vjudgeBaseUrl @ ''/'' @ nameOf (usernames.vjudge us) @ ''/submissions'')
          = Inl m \<longrightarrow>
      syncResults.vjudge (syncAllPlatforms w us) = Some
        \<lparr>vjudgeResult.success = False, vjudgeResult.error = Some m,
           vjudgeResult.username = None, vjudgeResult.totalSolved = 0,
           vjudgeResult.totalSubmitted = None, vjudgeResult.dailyActivity = None,
           vjudgeResult.recentSolves = None, vjudgeResult.lastUpdated = None\<rparr>"
    by (simp add: syncAllPlatforms_fields fetchVJudgeProgress_second_failure)
  show ?thesis
    by (intro conjI; fact cs_fail cs_ok cf_info cf_notfound cf_empty cf_status cf_statusfailed cf_ok vj_first vj_second vj_ok cs_shape cf_shape vj_shape sy_all sy_cses sy_cf sy_vj1 sy_vj2)
qed

theorem fetches_always_resolve_witness:
  "fetchVJudgeProgress vjudgeProfileOnly (\<lambda>s. ''Invalid Date'') ''2024-01-05T00:00:00.300Z'' ''bob'' =
       \<lparr>vjudgeResult.success = False, vjudgeResult.error = Some ''timeout of 10000ms exceeded'',
        vjudgeResult.username = None, vjudgeResult.totalSolved = 0,
        vjudgeResult.totalSubmitted = None, vjudgeResult.dailyActivity = None,
        vjudgeResult.recentSolves = None, vjudgeResult.lastUpdated = None\<rparr>
   \<and> fetchVJudgeProgress vjudgeBoth (\<lambda>s. ''Invalid Date'') ''2024-01-05T00:00:00.300Z'' ''bob'' =
       \<lparr>vjudgeResult.success = True, vjudgeResult.error = None,
        vjudgeResult.username = Some ''bob'', vjudgeResult.totalSolved = 42,
        vjudgeResult.totalSubmitted = Some 100,
        vjudgeResult.dailyActivity = Some [(''2024-01-01'', 3)],
        vjudgeResult.recentSolves =
          Some [(''Invalid Date'', [\<lparr>problem = ''A + B Problem'', timestamp = []\<rparr>])],
        vjudgeResult.lastUpdated = Some ''2024-01-05T00:00:00.300Z''\<rparr>
   \<and> syncAllPlatforms failingWorld sampleUsernames =
       \<lparr>syncResults.cses = Some
          \<lparr>csesResult.success = False, csesResult.error = Some ''timeout of 10000ms exceeded'',
        csesResult.totalSolved = 0, csesResult.categories = None,
        csesResult.lastUpdated = None\<rparr>,
        syncResults.codeforces = Some
          \<lparr>cfResult.success = False, cfResult.error = Some ''Network Error'',
        cfResult.username = None, cfResult.rating = Label ''Error'',
        cfResult.maxRating = None, cfResult.problemsSolved = 0, cfResult.contests = 0,
        cfResult.dailySolves = None, cfResult.lastUpdated = None\<rparr>,
        syncResults.vjudge = Some
          \<lparr>vjudgeResult.success = False, vjudgeResult.error = Some ''Request failed with status code 404'',
        vjudgeResult.username = None, vjudgeResult.totalSolved = 0,
        vjudgeResult.totalSubmitted = None, vjudgeResult.dailyActivity = None,
        vjudgeResult.recentSolves = None, vjudgeResult.lastUpdated = None\<rparr>,
        syncResults.syncTime = ''2024-01-05T00:00:00.000Z''\<rparr>
   \<and> syncAllPlatforms sampleWorld vjudgeOnly =
       \<lparr>syncResults.cses = None, syncResults.codeforces = None,
        syncResults.vjudge = Some
          \<lparr>vjudgeResult.success = False, vjudgeResult.error = Some ''Request failed with status code 404'',
        vjudgeResult.username = None, vjudgeResult.totalSolved = 0,
        vjudgeResult.totalSubmitted = None, vjudgeResult.dailyActivity = None,
        vjudgeResult.recentSolves = None, vjudgeResult.lastUpdated = None\<rparr>,
        syncResults.syncTime = ''2024-01-05T00:00:00.000Z''\<rparr>
   \<and> csesResult.success
       (fetchCSESProgress (\<lambda>u. Inr samplePage) ''2024-01-05T00:00:00.450Z'' ''alice'')"
proof -
  have p1: "vjudgeProfileOnly (vjudgeBaseUrl @ ''/'' @ ''bob'') = Inr sampleProfile"
    "vjudgeProfileOnly (vjudgeBaseUrl @ ''/'' @ ''bob'' @ ''/submissions'')
       = Inl ''timeout of 10000ms exceeded''"
    by (simp_all add: vjudgeProfileOnly_def vjudgeBaseUrl_def)
  have p2: "vjudgeBoth (vjudgeBaseUrl @ ''/'' @ ''bob'') = Inr sampleProfile"
    "vjudgeBoth (vjudgeBaseUrl @ ''/'' @ ''bob'' @ ''/submissions'') = Inr sampleSubmissionsPage"
    by (simp_all add: vjudgeBoth_def vjudgeBaseUrl_def)
  have n: "parseInt ''42'' = Some 42" "parseInt ''100'' = Some 100" "parseInt ''3'' = Some 3"
    "parseInt ''0'' = Some 0"
    by (simp_all add: parseInt_def isWhiteSpace_def radixDigit_def digitsValue_def)
  have r1: "fetchVJudgeProgress vjudgeProfileOnly (\<lambda>s. ''Invalid Date'') ''2024-01-05T00:00:00.300Z'' ''bob'' =
       \<lparr>vjudgeResult.success = False, vjudgeResult.error = Some ''timeout of 10000ms exceeded'',
        vjudgeResult.username = None, vjudgeResult.totalSolved = 0,
        vjudgeResult.totalSubmitted = None, vjudgeResult.dailyActivity = None,
        vjudgeResult.recentSolves = None, vjudgeResult.lastUpdated = None\<rparr>"
    using fetches_always_resolve [where gv = vjudgeProfileOnly and d = "\<lambda>s. ''Invalid Date''"
        and now = "''2024-01-05T00:00:00.300Z''" and v = "''bob''" and page = sampleProfile
        and m = "''timeout of 10000ms exceeded''",
        THEN conjunct2, THEN conjunct2, THEN conjunct2, THEN conjunct2, THEN conjunct2,
        THEN conjunct2, THEN conjunct2, THEN conjunct2, THEN conjunct2, THEN conjunct1] p1
    by blast
  have "fetchVJudgeProgress vjudgeBoth (\<lambda>s. ''Invalid Date'') ''2024-01-05T00:00:00.300Z'' ''bob'' =
       \<lparr>vjudgeResult.success = True, vjudgeResult.error = None,
        vjudgeResult.username = Some ''bob'',
        vjudgeResult.totalSolved = parseIntOrZero (trim (solvedText sampleProfile)),
        vjudgeResult.totalSubmitted = Some (parseIntOrZero (trim (submittedText sampleProfile))),
        vjudgeResult.dailyActivity =
          Some (foldl recordActivity [] (activityCells sampleProfile)),
        vjudgeResult.recentSolves =
          Some (foldl (recordRecent (\<lambda>s. ''Invalid Date'')) []
                  (submissionRows sampleSubmissionsPage)),
        vjudgeResult.lastUpdated = Some ''2024-01-05T00:00:00.300Z''\<rparr>"
    using fetches_always_resolve [where gv = vjudgeBoth and d = "\<lambda>s. ''Invalid Date''"
        and now = "''2024-01-05T00:00:00.300Z''" and v = "''bob''" and page = sampleProfile
        and subs = sampleSubmissionsPage,
        THEN conjunct2, THEN conjunct2, THEN conjunct2, THEN conjunct2, THEN conjunct2,
        THEN conjunct2, THEN conjunct2, THEN conjunct2, THEN conjunct2, THEN conjunct2,
        THEN conjunct1] p2
    by blast
  then have r2: "fetchVJudgeProgress vjudgeBoth (\<lambda>s. ''Invalid Date'') ''2024-01-05T00:00:00.300Z'' ''bob'' =
       \<lparr>vjudgeResult.success = True, vjudgeResult.error = None,
        vjudgeResult.username = Some ''bob'', vjudgeResult.totalSolved = 42,
        vjudgeResult.totalSubmitted = Some 100,
        vjudgeResult.dailyActivity = Some [(''2024-01-01'', 3)],
        vjudgeResult.recentSolves =
          Some [(''Invalid Date'', [\<lparr>problem = ''A + B Problem'', timestamp = []\<rparr>])],
        vjudgeResult.lastUpdated = Some ''2024-01-05T00:00:00.300Z''\<rparr>"
    by (simp add: sampleProfile_def sampleSubmissionsPage_def parseIntOrZero_def trim_def
          isWhiteSpace_def n recordActivity_def recordRecent_def)
  have f1: "csesGet failingWorld (csesBaseUrl @ ''/user/'' @ nameOf (usernames.cses sampleUsernames))
       = Inl ''timeout of 10000ms exceeded''"
    "cfInfoGet failingWorld
       (codeforcesBaseUrl @ ''/user.info?handles='' @ nameOf (usernames.codeforces sampleUsernames))
       = Inl ''Network Error''"
    "vjudgeGet failingWorld (vjudgeBaseUrl @ ''/'' @ nameOf (usernames.vjudge sampleUsernames))
       = Inl ''Request failed with status code 404''"
    "syncNow failingWorld = ''2024-01-05T00:00:00.000Z''"
    by (simp_all add: failingWorld_def csesDownWorld_def sampleWorld_def)
  have tr: "truthy (usernames.cses sampleUsernames)" "truthy (usernames.codeforces sampleUsernames)"
    "truthy (usernames.vjudge sampleUsernames)"
    by (simp_all add: sampleUsernames_def truthy_def)
  have a: "syncResults.cses (syncAllPlatforms failingWorld sampleUsernames) = Some
          \<lparr>csesResult.success = False, csesResult.error = Some ''timeout of 10000ms exceeded'',
        csesResult.totalSolved = 0, csesResult.categories = None,
        csesResult.lastUpdated = None\<rparr>"
    using fetches_always_resolve [where w = failingWorld and us = sampleUsernames
        and m = "''timeout of 10000ms exceeded''",
        THEN conjunct2, THEN conjunct2, THEN conjunct2, THEN conjunct2, THEN conjunct2,
        THEN conjunct2, THEN conjunct2, THEN conjunct2, THEN conjunct2, THEN conjunct2,
        THEN conjunct2, THEN conjunct2, THEN conjunct2, THEN conjunct2, THEN conjunct2,
        THEN conjunct1] f1 tr
    by blast
  have b: "syncResults.codeforces (syncAllPlatforms failingWorld sampleUsernames) = Some
          \<lparr>cfResult.success = False, cfResult.error = Some ''Network Error'',
        cfResult.username = None, cfResult.rating = Label ''Error'',
        cfResult.maxRating = None, cfResult.problemsSolved = 0, cfResult.contests = 0,
        cfResult.dailySolves = None, cfResult.lastUpdated = None\<rparr>"
    using fetches_always_resolve [where w = failingWorld and us = sampleUsernames
        and m = "''Network Error''",
        THEN conjunct2, THEN conjunct2, THEN conjunct2, THEN conjunct2, THEN conjunct2,
        THEN conjunct2, THEN conjunct2, THEN conjunct2, THEN conjunct2, THEN conjunct2,
        THEN conjunct2, THEN conjunct2, THEN conjunct2, THEN conjunct2, THEN conjunct2,
        THEN conjunct2, THEN conjunct1] f1 tr
    by blast
  have c: "syncResults.vjudge (syncAllPlatforms failingWorld sampleUsernames) = Some
          \<lparr>vjudgeResult.success = False, vjudgeResult.error = Some ''Request failed with status code 404'',
        vjudgeResult.username = None, vjudgeResult.totalSolved = 0,
        vjudgeResult.totalSubmitted = None, vjudgeResult.dailyActivity = None,
        vjudgeResult.recentSolves = None, vjudgeResult.lastUpdated = None\<rparr>"
    using fetches_always_resolve [where w = failingWorld and us = sampleUsernames
        and m = "''Request failed with status code 404''",
        THEN conjunct2, THEN conjunct2, THEN conjunct2, THEN conjunct2, THEN conjunct2,
        THEN conjunct2, THEN conjunct2, THEN conjunct2, THEN conjunct2, THEN conjunct2,
        THEN conjunct2, THEN conjunct2, THEN conjunct2, THEN conjunct2, THEN conjunct2,
        THEN conjunct2, THEN conjunct2, THEN conjunct1] f1 tr
    by blast
  have e: "syncResults.syncTime (syncAllPlatforms failingWorld sampleUsernames)
      = ''2024-01-05T00:00:00.000Z''"
    by (simp add: syncAllPlatforms_fields f1)
  have r3: "syncAllPlatforms failingWorld sampleUsernames =
       \<lparr>syncResults.cses = Some
          \<lparr>csesResult.success = False, csesResult.error = Some ''timeout of 10000ms exceeded'',
        csesResult.totalSolved = 0, csesResult.categories = None,
        csesResult.lastUpdated = None\<rparr>,
        syncResults.codeforces = Some
          \<lparr>cfResult.success = False, cfResult.error = Some ''Network Error'',
        cfResult.username = None, cfResult.rating = Label ''Error'',
        cfResult.maxRating = None, cfResult.problemsSolved = 0, cfResult.contests = 0,
        cfResult.dailySolves = None, cfResult.lastUpdated = None\<rparr>,
        syncResults.vjudge = Some
          \<lparr>vjudgeResult.success = False, vjudgeResult.error = Some ''Request failed with status code 404'',
        vjudgeResult.username = None, vjudgeResult.totalSolved = 0,
        vjudgeResult.totalSubmitted = None, vjudgeResult.dailyActivity = None,
        vjudgeResult.recentSolves = None, vjudgeResult.lastUpdated = None\<rparr>,
        syncResults.syncTime = ''2024-01-05T00:00:00.000Z''\<rparr>"
    using a b c e by (cases "syncAllPlatforms failingWorld sampleUsernames") simp
  have g1: "\<not> truthy (usernames.cses vjudgeOnly)" "\<not> truthy (usernames.codeforces vjudgeOnly)"
    "truthy (usernames.vjudge vjudgeOnly)"
    "vjudgeGet sampleWorld (vjudgeBaseUrl @ ''/'' @ nameOf (usernames.vjudge vjudgeOnly))
       = Inl ''Request failed with status code 404''"
    "syncNow sampleWorld = ''2024-01-05T00:00:00.000Z''"
    by (simp_all add: vjudgeOnly_def truthy_def sampleWorld_def)
  have all: "syncAllPlatforms sampleWorld vjudgeOnly =
        \<lparr>syncResults.cses = None, syncResults.codeforces = None,
         syncResults.vjudge =
           Some (fetchVJudgeProgress (vjudgeGet sampleWorld) (dateOf sampleWorld)
                   (vjudgeNow sampleWorld) (nameOf (usernames.vjudge vjudgeOnly))),
         syncResults.syncTime = ''2024-01-05T00:00:00.000Z''\<rparr>"
    using fetches_always_resolve [where w = sampleWorld and us = vjudgeOnly,
        THEN conjunct2, THEN conjunct2, THEN conjunct2, THEN conjunct2, THEN conjunct2,
        THEN conjunct2, THEN conjunct2, THEN conjunct2, THEN conjunct2, THEN conjunct2,
        THEN conjunct2, THEN conjunct2, THEN conjunct2, THEN conjunct2, THEN conjunct1] g1
    by simp
  have "fetchVJudgeProgress (vjudgeGet sampleWorld) (dateOf sampleWorld)
                   (vjudgeNow sampleWorld) (nameOf (usernames.vjudge vjudgeOnly)) =
          \<lparr>vjudgeResult.success = False, vjudgeResult.error = Some ''Request failed with status code 404'',
        vjudgeResult.username = None, vjudgeResult.totalSolved = 0,
        vjudgeResult.totalSubmitted = None, vjudgeResult.dailyActivity = None,
        vjudgeResult.recentSolves = None, vjudgeResult.lastUpdated = None\<rparr>"
    using fetches_always_resolve [where gv = "vjudgeGet sampleWorld" and d = "dateOf sampleWorld"
        and now = "vjudgeNow sampleWorld" and v = "nameOf (usernames.vjudge vjudgeOnly)"
        and m = "''Request failed with status code 404''",
        THEN conjunct2, THEN conjunct2, THEN conjunct2, THEN conjunct2, THEN conjunct2,
        THEN conjunct2, THEN conjunct2, THEN conjunct2, THEN conjunct1] g1
    by blast
  with all have r4: "syncAllPlatforms sampleWorld vjudgeOnly =
       \<lparr>syncResults.cses = None, syncResults.codeforces = None,
        syncResults.vjudge = Some
          \<lparr>vjudgeResult.success = False, vjudgeResult.error = Some ''Request failed with status code 404'',
        vjudgeResult.username = None, vjudgeResult.totalSolved = 0,
        vjudgeResult.totalSubmitted = None, vjudgeResult.dailyActivity = None,
        vjudgeResult.recentSolves = None, vjudgeResult.lastUpdated = None\<rparr>,
        syncResults.syncTime = ''2024-01-05T00:00:00.000Z''\<rparr>"
    by simp
  have r5: "csesResult.success
       (fetchCSESProgress (\<lambda>u. Inr samplePage) ''2024-01-05T00:00:00.450Z'' ''alice'')"
    using fetches_always_resolve [where g = "\<lambda>u. Inr samplePage"
        and now = "''2024-01-05T00:00:00.450Z''" and c = "''alice''" and cells = samplePage,
        THEN conjunct2, THEN conjunct1]
    by simp
  from r1 r2 r3 r4 r5 show ?thesis by (intro conjI)
qed

section \<open>The topic catalog: results\<close>

lemma fetchCSESTopics_error:
  "axios_get topicsUrl = Inl m \<Longrightarrow>
     fetchCSESTopics axios_get =
       \<lparr>topicsResult.success = True, topicsResult.fromCache = Some True,
        topicsResult.error = Some m, topicsResult.topics = fallbackTopics\<rparr>"
  by (simp add: fetchCSESTopics_def fetchCSESTopics_try_def)

lemma fetchCSESTopics_empty:
  "axios_get topicsUrl = Inr page \<Longrightarrow> filterTopics [] (parseTopics page) = [] \<Longrightarrow>
     fetchCSESTopics axios_get =
       \<lparr>topicsResult.success = True, topicsResult.fromCache = Some True,
        topicsResult.error = None, topicsResult.topics = fallbackTopics\<rparr>"
  by (simp add: fetchCSESTopics_def fetchCSESTopics_try_def)

lemma fetchCSESTopics_parsed:
  "axios_get topicsUrl = Inr page \<Longrightarrow> filterTopics [] (parseTopics page) \<noteq> [] \<Longrightarrow>
     fetchCSESTopics axios_get =
       \<lparr>topicsResult.success = True, topicsResult.fromCache = None,
        topicsResult.error = None,
        topicsResult.topics =
          map (\<lambda>t. t\<lparr>topic.description := Some (getTopicDescription (topic.title t))\<rparr>)
            (filterTopics [] (parseTopics page))\<rparr>"
  by (simp add: fetchCSESTopics_def fetchCSESTopics_try_def Let_def)

lemma length_fallbackTopics: "length fallbackTopics = 11"
  by (simp add: fallbackTopics_def)

lemma parseTopics_blank:
  "headings page = [] \<Longrightarrow> candidates page = [] \<Longrightarrow> parseTopics page = []"
  by (simp add: parseTopics_def)

text \<open>
  C6. When the parsed and filtered topics are empty, and when the request fails,
  \<open>fetchCSESTopics\<close> returns the fallback list of eleven topics with \<open>fromCache\<close> true
  and \<open>success\<close> true, with \<open>error\<close> set in the second case; its list of topics is
  never empty.
\<close>

theorem topics_fallback:
  "(axios_get topicsUrl = Inr page \<and> filterTopics [] (parseTopics page) = [] \<longrightarrow>
      fetchCSESTopics axios_get =
        \<lparr>topicsResult.success = True, topicsResult.fromCache = Some True,
         topicsResult.error = None, topicsResult.topics = fallbackTopics\<rparr>)
   \<and> (axios_get topicsUrl = Inl m \<longrightarrow>
        fetchCSESTopics axios_get =
          \<lparr>topicsResult.success = True, topicsResult.fromCache = Some True,
           topicsResult.error = Some m, topicsResult.topics = fallbackTopics\<rparr>)
   \<and> (headings page = [] \<and> candidates page = [] \<longrightarrow> filterTopics [] (parseTopics page) = [])
   \<and> length fallbackTopics = 11
   \<and> topicsResult.success (fetchCSESTopics axios_get)
   \<and> topicsResult.topics (fetchCSESTopics axios_get) \<noteq> []"
proof -
  have nonempty: "fallbackTopics \<noteq> []" using length_fallbackTopics by auto
  have "topicsResult.success (fetchCSESTopics axios_get)
        \<and> topicsResult.topics (fetchCSESTopics axios_get) \<noteq> []"
  proof (cases "axios_get topicsUrl")
    case (Inl m')
    then show ?thesis using nonempty by (simp add: fetchCSESTopics_error)
  next
    case (Inr pg)
    then show ?thesis
      using nonempty fetchCSESTopics_empty [where axios_get = axios_get, OF Inr]
        fetchCSESTopics_parsed [where axios_get = axios_get, OF Inr]
      by (cases "filterTopics [] (parseTopics pg) = []") simp_all
  qed
  then show ?thesis
    by (simp add: fetchCSESTopics_error fetchCSESTopics_empty length_fallbackTopics
          parseTopics_blank)
qed

theorem topics_fallback_witness:
  "fetchCSESTopics (\<lambda>u. Inr blankPage) =
     \<lparr>topicsResult.success = True, topicsResult.fromCache = Some True,
      topicsResult.error = None, topicsResult.topics = fallbackTopics\<rparr>
   \<and> filterTopics [] (parseTopics barePage) = []
   \<and> fetchCSESTopics (\<lambda>u. Inr barePage) =
     \<lparr>topicsResult.success = True, topicsResult.fromCache = Some True,
      topicsResult.error = None, topicsResult.topics = fallbackTopics\<rparr>
   \<and> fetchCSESTopics (\<lambda>u. Inl ''timeout of 20000ms exceeded'') =
     \<lparr>topicsResult.success = True, topicsResult.fromCache = Some True,
      topicsResult.error = Some ''timeout of 20000ms exceeded'',
      topicsResult.topics = fallbackTopics\<rparr>
   \<and> map topic.title fallbackTopics =
       [''Introductory Problems'', ''Sorting and Searching'', ''Dynamic Programming'',
        ''Graph Algorithms'', ''Range Queries'', ''Tree Algorithms'', ''Mathematics'',
        ''String Algorithms'', ''Geometry'', ''Advanced Techniques'', ''Additional Problems'']"
proof -
  have b: "filterTopics [] (parseTopics barePage) = []"
    by (simp add: barePage_def parseTopics_def headingTopic_def candidateTopic_def trim_def
          isWhiteSpace_def Let_def)
  note t1 = topics_fallback [where axios_get = "\<lambda>u. Inr blankPage" and page = blankPage]
  note t2 = topics_fallback [where axios_get = "\<lambda>u. Inr barePage" and page = barePage]
  note t3 = topics_fallback [where axios_get = "\<lambda>u. Inl ''timeout of 20000ms exceeded''"
      and m = "''timeout of 20000ms exceeded''"]
  from t1 have r1: "fetchCSESTopics (\<lambda>u. Inr blankPage) =
     \<lparr>topicsResult.success = True, topicsResult.fromCache = Some True,
      topicsResult.error = None, topicsResult.topics = fallbackTopics\<rparr>"
    by (simp add: blankPage_def)
  from t2 b have r2: "fetchCSESTopics (\<lambda>u. Inr barePage) =
     \<lparr>topicsResult.success = True, topicsResult.fromCache = Some True,
      topicsResult.error = None, topicsResult.topics = fallbackTopics\<rparr>"
    by simp
  from t3 have r3: "fetchCSESTopics (\<lambda>u. Inl ''timeout of 20000ms exceeded'') =
     \<lparr>topicsResult.success = True, topicsResult.fromCache = Some True,
      topicsResult.error = Some ''timeout of 20000ms exceeded'',
      topicsResult.topics = fallbackTopics\<rparr>"
    by simp
  have r4: "map topic.title fallbackTopics =
       [''Introductory Problems'', ''Sorting and Searching'', ''Dynamic Programming'',
        ''Graph Algorithms'', ''Range Queries'', ''Tree Algorithms'', ''Mathematics'',
        ''String Algorithms'', ''Geometry'', ''Advanced Techniques'', ''Additional Problems'']"
    by (simp add: fallbackTopics_def fallbackEntry_def)
  from r1 b r2 r3 r4 show ?thesis by blast
qed

end
